theory Spec2Isabelle
  imports Main "HOL-Library.Multiset"
begin

section \<open>Trivia Arena: the tables\<close>

text \<open>
  The four tables of the schema, one record per row type. A column declared
  \<^verbatim>\<open>optional: true\<close> holds an \<open>option\<close>; a date is a count of milliseconds;
  the number columns hold the integers the handlers write.  Field names carry
  the table's name where two tables share a column name (\<^verbatim>\<open>id\<close>, \<^verbatim>\<open>roomId\<close>,
  \<^verbatim>\<open>createdAt\<close>).
\<close>

type_synonym date = int

record room =
  room_id :: string
  hostUserId :: string
  room_name :: string
  accessCode :: "string option"
  status :: "string option"
  maxPlayers :: "int option"
  room_createdAt :: date
  updatedAt :: date

record player =
  player_id :: string
  player_roomId :: string
  userId :: "string option"
  displayName :: string
  totalScore :: int
  joinedAt :: date
  leftAt :: "date option"

record question =
  question_id :: string
  question_roomId :: string
  orderIndex :: int
  questionText :: string
  optionA :: "string option"
  optionB :: "string option"
  optionC :: "string option"
  optionD :: "string option"
  correctOptionKey :: "string option"
  timeLimitSeconds :: "int option"
  question_createdAt :: date

record answer =
  answer_id :: string
  questionId :: string
  playerId :: string
  selectedOptionKey :: "string option"
  isCorrect :: bool
  answeredAt :: date
  scoreAwarded :: int

text \<open>The database: each table is the list of its rows, in insertion order.\<close>

record db =
  TriviaRooms :: "room list"
  TriviaPlayers :: "player list"
  TriviaQuestions :: "question list"
  TriviaAnswers :: "answer list"

definition empty_db :: db where
  "empty_db = \<lparr>TriviaRooms = [], TriviaPlayers = [], TriviaQuestions = [], TriviaAnswers = []\<rparr>"

section \<open>Errors, the caller, the enumerations of the input schemas\<close>

datatype error_code = UNAUTHORIZED | NOT_FOUND | BAD_REQUEST | FORBIDDEN

text \<open>
  \<open>ActionError\<close> is what the handlers throw. \<open>InputError\<close> is the rejection of an
  input by the action's schema, before the handler runs. \<open>PrimaryKeyError\<close> is the
  store refusing an insert whose \<^verbatim>\<open>id\<close> is already in the table (every \<^verbatim>\<open>id\<close>
  column is declared \<^verbatim>\<open>primaryKey: true\<close>).
\<close>

datatype failure = ActionError error_code string | InputError | PrimaryKeyError

record user =
  user_id :: string
  user_email :: "string option"

text \<open>\<^verbatim>\<open>context.locals?.user\<close>: the signed-in user, if there is one.\<close>

type_synonym actionContext = "user option"

datatype room_status = Lobby | InProgress | Completed

fun status_text :: "room_status \<Rightarrow> string" where
  "status_text Lobby = ''lobby''"
| "status_text InProgress = ''in-progress''"
| "status_text Completed = ''completed''"

datatype option_key = A | B | C | D

fun key_text :: "option_key \<Rightarrow> string" where
  "key_text A = ''A''"
| "key_text B = ''B''"
| "key_text C = ''C''"
| "key_text D = ''D''"

section \<open>The table API\<close>

text \<open>
  \<^verbatim>\<open>select().from(T).where(P).limit(1)\<close> is \<^const>\<open>find\<close>;
  \<^verbatim>\<open>update(T).set(f).where(P)\<close> rewrites every row that satisfies \<open>P\<close>;
  \<^verbatim>\<open>insert(T).values(r)\<close> appends the row, unless its primary key is taken.
\<close>

definition update_where :: "('a \<Rightarrow> bool) \<Rightarrow> ('a \<Rightarrow> 'a) \<Rightarrow> 'a list \<Rightarrow> 'a list" where
  "update_where P f t = map (\<lambda>r. if P r then f r else r) t"

definition insert_row :: "('a \<Rightarrow> string) \<Rightarrow> 'a \<Rightarrow> 'a list \<Rightarrow> 'a list option" where
  "insert_row key r t = (if key r \<in> set (map key t) then None else Some (t @ [r]))"

section \<open>Helpers of the handlers\<close>

definition requireUser :: "actionContext \<Rightarrow> failure + user" where
  "requireUser ctx =
     (case ctx of
        None \<Rightarrow> Inl (ActionError UNAUTHORIZED ''You must be signed in to perform this action.'')
      | Some u \<Rightarrow> Inr u)"

definition loadOwnedRoom :: "string \<Rightarrow> string \<Rightarrow> db \<Rightarrow> failure + room" where
  "loadOwnedRoom roomId uid s =
     (case find (\<lambda>r. room_id r = roomId \<and> hostUserId r = uid) (TriviaRooms s) of
        None \<Rightarrow> Inl (ActionError NOT_FOUND ''Room not found for this user.'')
      | Some r \<Rightarrow> Inr r)"

section \<open>createRoom\<close>

record createRoom_input =
  cr_name :: string
  cr_accessCode :: "string option"
  cr_status :: "room_status option"
  cr_maxPlayers :: "int option"

definition createRoom_schema :: "createRoom_input \<Rightarrow> bool" where
  "createRoom_schema inp \<longleftrightarrow>
     1 \<le> length (cr_name inp) \<and>
     (case cr_maxPlayers inp of None \<Rightarrow> True | Some m \<Rightarrow> 0 < m)"

definition createRoom_handler ::
  "createRoom_input \<Rightarrow> actionContext \<Rightarrow> string \<Rightarrow> date \<Rightarrow> db \<Rightarrow> (failure + room) \<times> db" where
  "createRoom_handler inp ctx uuid now s =
     (case requireUser ctx of
        Inl e \<Rightarrow> (Inl e, s)
      | Inr u \<Rightarrow>
          let r = \<lparr>room_id = uuid,
                   hostUserId = user_id u,
                   room_name = cr_name inp,
                   accessCode = cr_accessCode inp,
                   status = Some (case cr_status inp of None \<Rightarrow> ''lobby'' | Some st \<Rightarrow> status_text st),
                   maxPlayers = cr_maxPlayers inp,
                   room_createdAt = now,
                   updatedAt = now\<rparr>
          in (case insert_row room_id r (TriviaRooms s) of
                None \<Rightarrow> (Inl PrimaryKeyError, s)
              | Some t \<Rightarrow> (Inr r, s\<lparr>TriviaRooms := t\<rparr>)))"

definition createRoom ::
  "createRoom_input \<Rightarrow> actionContext \<Rightarrow> string \<Rightarrow> date \<Rightarrow> db \<Rightarrow> (failure + room) \<times> db" where
  "createRoom inp ctx uuid now s =
     (if createRoom_schema inp then createRoom_handler inp ctx uuid now s else (Inl InputError, s))"

section \<open>updateRoom\<close>

record updateRoom_input =
  ur_id :: string
  ur_name :: "string option"
  ur_accessCode :: "string option"
  ur_status :: "room_status option"
  ur_maxPlayers :: "int option"

definition updateRoom_schema :: "updateRoom_input \<Rightarrow> bool" where
  "updateRoom_schema inp \<longleftrightarrow>
     1 \<le> length (ur_id inp) \<and>
     (case ur_name inp of None \<Rightarrow> True | Some n \<Rightarrow> 1 \<le> length n) \<and>
     (case ur_maxPlayers inp of None \<Rightarrow> True | Some m \<Rightarrow> 0 < m)"

text \<open>
  The \<^verbatim>\<open>updates\<close> object: \<^verbatim>\<open>updatedAt\<close> is always a key, each other key is
  present when its field is \<open>Some\<close>.
\<close>

record room_updates =
  upd_updatedAt :: date
  upd_name :: "string option"
  upd_accessCode :: "string option"
  upd_status :: "string option"
  upd_maxPlayers :: "int option"

text \<open>
  \<^verbatim>\<open>if (input.name)\<close> and \<^verbatim>\<open>if (input.status)\<close> test truthiness, so an empty
  string is skipped; \<^verbatim>\<open>accessCode\<close> and \<^verbatim>\<open>maxPlayers\<close> are tested against
  \<^verbatim>\<open>undefined\<close>.
\<close>

definition build_updates :: "updateRoom_input \<Rightarrow> date \<Rightarrow> room_updates" where
  "build_updates inp now =
     \<lparr>upd_updatedAt = now,
      upd_name = (case ur_name inp of None \<Rightarrow> None | Some n \<Rightarrow> if n = [] then None else Some n),
      upd_accessCode = ur_accessCode inp,
      upd_status = (case ur_status inp of None \<Rightarrow> None
                    | Some st \<Rightarrow> if status_text st = [] then None else Some (status_text st)),
      upd_maxPlayers = ur_maxPlayers inp\<rparr>"

definition keys_length :: "room_updates \<Rightarrow> nat" where
  "keys_length u =
     1 + (if upd_name u = None then 0 else 1) + (if upd_accessCode u = None then 0 else 1)
       + (if upd_status u = None then 0 else 1) + (if upd_maxPlayers u = None then 0 else 1)"

definition set_room :: "room_updates \<Rightarrow> room \<Rightarrow> room" where
  "set_room u r =
     r\<lparr>updatedAt := upd_updatedAt u,
       room_name := (case upd_name u of None \<Rightarrow> room_name r | Some n \<Rightarrow> n),
       accessCode := (case upd_accessCode u of None \<Rightarrow> accessCode r | Some c \<Rightarrow> Some c),
       status := (case upd_status u of None \<Rightarrow> status r | Some st \<Rightarrow> Some st),
       maxPlayers := (case upd_maxPlayers u of None \<Rightarrow> maxPlayers r | Some m \<Rightarrow> Some m)\<rparr>"

definition updateRoom_handler ::
  "updateRoom_input \<Rightarrow> actionContext \<Rightarrow> date \<Rightarrow> db \<Rightarrow> (failure + room) \<times> db" where
  "updateRoom_handler inp ctx now s =
     (case requireUser ctx of
        Inl e \<Rightarrow> (Inl e, s)
      | Inr u \<Rightarrow>
          (case loadOwnedRoom (ur_id inp) (user_id u) s of
             Inl e \<Rightarrow> (Inl e, s)
           | Inr r \<Rightarrow>
               let updates = build_updates inp now
               in if keys_length updates = 1
                  then (Inl (ActionError BAD_REQUEST ''No changes provided for update.''), s)
                  else (Inr (set_room updates r),
                        s\<lparr>TriviaRooms :=
                            update_where (\<lambda>x. room_id x = room_id r) (set_room updates) (TriviaRooms s)\<rparr>)))"

definition updateRoom ::
  "updateRoom_input \<Rightarrow> actionContext \<Rightarrow> date \<Rightarrow> db \<Rightarrow> (failure + room) \<times> db" where
  "updateRoom inp ctx now s =
     (if updateRoom_schema inp then updateRoom_handler inp ctx now s else (Inl InputError, s))"

section \<open>listMyRooms\<close>

record listMyRooms_input =
  lm_page :: int
  lm_pageSize :: int

definition listMyRooms_schema :: "listMyRooms_input \<Rightarrow> bool" where
  "listMyRooms_schema inp \<longleftrightarrow> 1 \<le> lm_page inp \<and> 1 \<le> lm_pageSize inp \<and> lm_pageSize inp \<le> 50"

definition listMyRooms_handler ::
  "listMyRooms_input \<Rightarrow> actionContext \<Rightarrow> db \<Rightarrow> (failure + room list \<times> nat) \<times> db" where
  "listMyRooms_handler inp ctx s =
     (case requireUser ctx of
        Inl e \<Rightarrow> (Inl e, s)
      | Inr u \<Rightarrow>
          let offset = (lm_page inp - 1) * lm_pageSize inp;
              mine = filter (\<lambda>r. hostUserId r = user_id u) (TriviaRooms s);
              rooms = take (nat (lm_pageSize inp)) (drop (nat offset) (sort_key room_createdAt mine))
          in (Inr (rooms, length mine), s))"

definition listMyRooms ::
  "listMyRooms_input \<Rightarrow> actionContext \<Rightarrow> db \<Rightarrow> (failure + room list \<times> nat) \<times> db" where
  "listMyRooms inp ctx s =
     (if listMyRooms_schema inp then listMyRooms_handler inp ctx s else (Inl InputError, s))"

section \<open>upsertQuestion\<close>

record upsertQuestion_input =
  uq_roomId :: string
  uq_id :: "string option"
  uq_orderIndex :: int
  uq_questionText :: string
  uq_optionA :: "string option"
  uq_optionB :: "string option"
  uq_optionC :: "string option"
  uq_optionD :: "string option"
  uq_correctOptionKey :: "option_key option"
  uq_timeLimitSeconds :: "int option"

definition upsertQuestion_schema :: "upsertQuestion_input \<Rightarrow> bool" where
  "upsertQuestion_schema inp \<longleftrightarrow>
     1 \<le> length (uq_roomId inp) \<and> 0 \<le> uq_orderIndex inp \<and> 1 \<le> length (uq_questionText inp) \<and>
     (case uq_timeLimitSeconds inp of None \<Rightarrow> True | Some t \<Rightarrow> 0 < t)"

definition questionPayload :: "upsertQuestion_input \<Rightarrow> question \<Rightarrow> question" where
  "questionPayload inp q =
     q\<lparr>question_roomId := uq_roomId inp,
       orderIndex := uq_orderIndex inp,
       questionText := uq_questionText inp,
       optionA := uq_optionA inp,
       optionB := uq_optionB inp,
       optionC := uq_optionC inp,
       optionD := uq_optionD inp,
       correctOptionKey := map_option key_text (uq_correctOptionKey inp),
       timeLimitSeconds := uq_timeLimitSeconds inp\<rparr>"

definition newQuestion :: "upsertQuestion_input \<Rightarrow> string \<Rightarrow> date \<Rightarrow> question" where
  "newQuestion inp uuid now =
     \<lparr>question_id = uuid,
      question_roomId = uq_roomId inp,
      orderIndex = uq_orderIndex inp,
      questionText = uq_questionText inp,
      optionA = uq_optionA inp,
      optionB = uq_optionB inp,
      optionC = uq_optionC inp,
      optionD = uq_optionD inp,
      correctOptionKey = map_option key_text (uq_correctOptionKey inp),
      timeLimitSeconds = uq_timeLimitSeconds inp,
      question_createdAt = now\<rparr>"

text \<open>\<^verbatim>\<open>if (input.id)\<close>: an id that is absent or empty takes the insert path.\<close>

definition upsertQuestion_handler ::
  "upsertQuestion_input \<Rightarrow> actionContext \<Rightarrow> string \<Rightarrow> date \<Rightarrow> db \<Rightarrow> (failure + question) \<times> db" where
  "upsertQuestion_handler inp ctx uuid now s =
     (case requireUser ctx of
        Inl e \<Rightarrow> (Inl e, s)
      | Inr u \<Rightarrow>
          (case loadOwnedRoom (uq_roomId inp) (user_id u) s of
             Inl e \<Rightarrow> (Inl e, s)
           | Inr _ \<Rightarrow>
               (case (case uq_id inp of None \<Rightarrow> None | Some i \<Rightarrow> if i = [] then None else Some i) of
                  Some i \<Rightarrow>
                    (case find (\<lambda>q. question_id q = i) (TriviaQuestions s) of
                       None \<Rightarrow> (Inl (ActionError NOT_FOUND ''Question not found.''), s)
                     | Some existing \<Rightarrow>
                         if question_roomId existing \<noteq> uq_roomId inp
                         then (Inl (ActionError FORBIDDEN ''Question does not belong to this room.''), s)
                         else (Inr (questionPayload inp existing),
                               s\<lparr>TriviaQuestions :=
                                   update_where (\<lambda>q. question_id q = i) (questionPayload inp)
                                     (TriviaQuestions s)\<rparr>))
                | None \<Rightarrow>
                    (case insert_row question_id (newQuestion inp uuid now) (TriviaQuestions s) of
                       None \<Rightarrow> (Inl PrimaryKeyError, s)
                     | Some t \<Rightarrow> (Inr (newQuestion inp uuid now), s\<lparr>TriviaQuestions := t\<rparr>)))))"

definition upsertQuestion ::
  "upsertQuestion_input \<Rightarrow> actionContext \<Rightarrow> string \<Rightarrow> date \<Rightarrow> db \<Rightarrow> (failure + question) \<times> db" where
  "upsertQuestion inp ctx uuid now s =
     (if upsertQuestion_schema inp then upsertQuestion_handler inp ctx uuid now s
      else (Inl InputError, s))"

section \<open>listRoomQuestions\<close>

record listRoomQuestions_input =
  lq_roomId :: string

definition listRoomQuestions_schema :: "listRoomQuestions_input \<Rightarrow> bool" where
  "listRoomQuestions_schema inp \<longleftrightarrow> 1 \<le> length (lq_roomId inp)"

definition listRoomQuestions_handler ::
  "listRoomQuestions_input \<Rightarrow> actionContext \<Rightarrow> db \<Rightarrow> (failure + question list \<times> nat) \<times> db" where
  "listRoomQuestions_handler inp ctx s =
     (case requireUser ctx of
        Inl e \<Rightarrow> (Inl e, s)
      | Inr u \<Rightarrow>
          (case loadOwnedRoom (lq_roomId inp) (user_id u) s of
             Inl e \<Rightarrow> (Inl e, s)
           | Inr _ \<Rightarrow>
               let questions =
                     sort_key orderIndex
                       (filter (\<lambda>q. question_roomId q = lq_roomId inp) (TriviaQuestions s))
               in (Inr (questions, length questions), s)))"

definition listRoomQuestions ::
  "listRoomQuestions_input \<Rightarrow> actionContext \<Rightarrow> db \<Rightarrow> (failure + question list \<times> nat) \<times> db" where
  "listRoomQuestions inp ctx s =
     (if listRoomQuestions_schema inp then listRoomQuestions_handler inp ctx s
      else (Inl InputError, s))"

section \<open>joinRoom\<close>

record joinRoom_input =
  jr_roomId :: string
  jr_displayName :: "string option"

definition joinRoom_schema :: "joinRoom_input \<Rightarrow> bool" where
  "joinRoom_schema inp \<longleftrightarrow>
     1 \<le> length (jr_roomId inp) \<and>
     (case jr_displayName inp of None \<Rightarrow> True | Some n \<Rightarrow> 1 \<le> length n \<and> length n \<le> 120)"

definition newPlayer :: "joinRoom_input \<Rightarrow> user \<Rightarrow> string \<Rightarrow> date \<Rightarrow> player" where
  "newPlayer inp u uuid now =
     \<lparr>player_id = uuid,
      player_roomId = jr_roomId inp,
      userId = Some (user_id u),
      displayName =
        (case jr_displayName inp of
           Some n \<Rightarrow> n
         | None \<Rightarrow> (case user_email u of Some e \<Rightarrow> e | None \<Rightarrow> ''Player'')),
      totalScore = 0,
      joinedAt = now,
      leftAt = None\<rparr>"

definition joinRoom_handler ::
  "joinRoom_input \<Rightarrow> actionContext \<Rightarrow> string \<Rightarrow> date \<Rightarrow> db \<Rightarrow> (failure + player) \<times> db" where
  "joinRoom_handler inp ctx uuid now s =
     (case requireUser ctx of
        Inl e \<Rightarrow> (Inl e, s)
      | Inr u \<Rightarrow>
          (case find (\<lambda>r. room_id r = jr_roomId inp) (TriviaRooms s) of
             None \<Rightarrow> (Inl (ActionError NOT_FOUND ''Room not found.''), s)
           | Some _ \<Rightarrow>
               (case find (\<lambda>p. player_roomId p = jr_roomId inp \<and> userId p = Some (user_id u))
                       (TriviaPlayers s) of
                  Some existing \<Rightarrow> (Inr existing, s)
                | None \<Rightarrow>
                    (case insert_row player_id (newPlayer inp u uuid now) (TriviaPlayers s) of
                       None \<Rightarrow> (Inl PrimaryKeyError, s)
                     | Some t \<Rightarrow> (Inr (newPlayer inp u uuid now), s\<lparr>TriviaPlayers := t\<rparr>)))))"

definition joinRoom ::
  "joinRoom_input \<Rightarrow> actionContext \<Rightarrow> string \<Rightarrow> date \<Rightarrow> db \<Rightarrow> (failure + player) \<times> db" where
  "joinRoom inp ctx uuid now s =
     (if joinRoom_schema inp then joinRoom_handler inp ctx uuid now s else (Inl InputError, s))"

section \<open>recordAnswer\<close>

record recordAnswer_input =
  ra_questionId :: string
  ra_playerId :: string
  ra_selectedOptionKey :: "option_key option"

definition recordAnswer_schema :: "recordAnswer_input \<Rightarrow> bool" where
  "recordAnswer_schema inp \<longleftrightarrow> 1 \<le> length (ra_questionId inp) \<and> 1 \<le> length (ra_playerId inp)"

text \<open>
  \<^verbatim>\<open>!!input.selectedOptionKey && !!question.correctOptionKey && a === b\<close>: both are
  present, neither is the empty string, and they are the same string.
\<close>

definition answerIsCorrect :: "option_key option \<Rightarrow> string option \<Rightarrow> bool" where
  "answerIsCorrect sel correct =
     (case sel of
        None \<Rightarrow> False
      | Some k \<Rightarrow>
          key_text k \<noteq> [] \<and>
          (case correct of None \<Rightarrow> False | Some c \<Rightarrow> c \<noteq> [] \<and> key_text k = c))"

definition existingAnswer :: "recordAnswer_input \<Rightarrow> db \<Rightarrow> answer option" where
  "existingAnswer inp s =
     find (\<lambda>a. questionId a = ra_questionId inp \<and> playerId a = ra_playerId inp) (TriviaAnswers s)"

definition recordAnswer_handler ::
  "recordAnswer_input \<Rightarrow> actionContext \<Rightarrow> string \<Rightarrow> date \<Rightarrow> db \<Rightarrow> (failure + answer) \<times> db" where
  "recordAnswer_handler inp ctx uuid now s =
     (case requireUser ctx of
        Inl e \<Rightarrow> (Inl e, s)
      | Inr u \<Rightarrow>
     (case find (\<lambda>q. question_id q = ra_questionId inp) (TriviaQuestions s) of
        None \<Rightarrow> (Inl (ActionError NOT_FOUND ''Question not found.''), s)
      | Some q \<Rightarrow>
     (case find (\<lambda>p. player_id p = ra_playerId inp) (TriviaPlayers s) of
        None \<Rightarrow> (Inl (ActionError NOT_FOUND ''Player not found.''), s)
      | Some p \<Rightarrow>
     if player_roomId p \<noteq> question_roomId q
     then (Inl (ActionError BAD_REQUEST ''Player and question are in different rooms.''), s)
     else
     (case find (\<lambda>r. room_id r = question_roomId q) (TriviaRooms s) of
        None \<Rightarrow> (Inl (ActionError NOT_FOUND ''Room not found.''), s)
      | Some r \<Rightarrow>
     let isOwner = (hostUserId r = user_id u);
         isPlayerUser = (userId p = Some (user_id u))
     in
     if \<not> isOwner \<and> \<not> isPlayerUser
     then (Inl (ActionError FORBIDDEN ''You do not have permission to record this answer.''), s)
     else
     let correct = answerIsCorrect (ra_selectedOptionKey inp) (correctOptionKey q);
         newScore = (if correct then 10 else 0);
         existing = existingAnswer inp s;
         previousScore = (case existing of None \<Rightarrow> 0 | Some a \<Rightarrow> scoreAwarded a);
         answerId = (case existing of None \<Rightarrow> uuid | Some a \<Rightarrow> answer_id a);
         row = \<lparr>answer_id = answerId,
                 questionId = ra_questionId inp,
                 playerId = ra_playerId inp,
                 selectedOptionKey = map_option key_text (ra_selectedOptionKey inp),
                 isCorrect = correct,
                 answeredAt = now,
                 scoreAwarded = newScore\<rparr>;
         written =
           (case existing of
              Some _ \<Rightarrow>
                Some (update_where (\<lambda>a. answer_id a = answerId)
                        (\<lambda>a. a\<lparr>selectedOptionKey := map_option key_text (ra_selectedOptionKey inp),
                               isCorrect := correct,
                               answeredAt := now,
                               scoreAwarded := newScore\<rparr>)
                        (TriviaAnswers s))
            | None \<Rightarrow> insert_row answer_id row (TriviaAnswers s))
     in
     (case written of
        None \<Rightarrow> (Inl PrimaryKeyError, s)
      | Some t \<Rightarrow>
          (Inr row,
           s\<lparr>TriviaAnswers := t,
             TriviaPlayers :=
               update_where (\<lambda>x. player_id x = player_id p)
                 (\<lambda>x. x\<lparr>totalScore := totalScore p - previousScore + newScore\<rparr>)
                 (TriviaPlayers s)\<rparr>))))))"

definition recordAnswer ::
  "recordAnswer_input \<Rightarrow> actionContext \<Rightarrow> string \<Rightarrow> date \<Rightarrow> db \<Rightarrow> (failure + answer) \<times> db" where
  "recordAnswer inp ctx uuid now s =
     (if recordAnswer_schema inp then recordAnswer_handler inp ctx uuid now s
      else (Inl InputError, s))"

section \<open>The server: every action, as a step on the database\<close>

datatype action =
    CreateRoom createRoom_input
  | UpdateRoom updateRoom_input
  | ListMyRooms listMyRooms_input
  | UpsertQuestion upsertQuestion_input
  | ListRoomQuestions listRoomQuestions_input
  | JoinRoom joinRoom_input
  | RecordAnswer recordAnswer_input

fun server :: "action \<Rightarrow> actionContext \<Rightarrow> string \<Rightarrow> date \<Rightarrow> db \<Rightarrow> db" where
  "server (CreateRoom inp) ctx uuid now s = snd (createRoom inp ctx uuid now s)"
| "server (UpdateRoom inp) ctx uuid now s = snd (updateRoom inp ctx now s)"
| "server (ListMyRooms inp) ctx uuid now s = snd (listMyRooms inp ctx s)"
| "server (UpsertQuestion inp) ctx uuid now s = snd (upsertQuestion inp ctx uuid now s)"
| "server (ListRoomQuestions inp) ctx uuid now s = snd (listRoomQuestions inp ctx s)"
| "server (JoinRoom inp) ctx uuid now s = snd (joinRoom inp ctx uuid now s)"
| "server (RecordAnswer inp) ctx uuid now s = snd (recordAnswer inp ctx uuid now s)"

section \<open>Constraints declared by the schema, and the invariants of the tables\<close>

text \<open>Every \<^verbatim>\<open>id\<close> column is a primary key: no two rows of a table share an id.\<close>

definition primary_keys_ok :: "db \<Rightarrow> bool" where
  "primary_keys_ok s \<longleftrightarrow>
     distinct (map room_id (TriviaRooms s)) \<and>
     distinct (map player_id (TriviaPlayers s)) \<and>
     distinct (map question_id (TriviaQuestions s)) \<and>
     distinct (map answer_id (TriviaAnswers s))"

text \<open>The \<^verbatim>\<open>references\<close> of the schema: a row names rows that are there.\<close>

definition references_ok :: "db \<Rightarrow> bool" where
  "references_ok s \<longleftrightarrow>
     list_all (\<lambda>p. player_roomId p \<in> set (map room_id (TriviaRooms s))) (TriviaPlayers s) \<and>
     list_all (\<lambda>q. question_roomId q \<in> set (map room_id (TriviaRooms s))) (TriviaQuestions s) \<and>
     list_all (\<lambda>a. questionId a \<in> set (map question_id (TriviaQuestions s)) \<and>
                    playerId a \<in> set (map player_id (TriviaPlayers s))) (TriviaAnswers s)"

definition schema_ok :: "db \<Rightarrow> bool" where
  "schema_ok s \<longleftrightarrow> primary_keys_ok s \<and> references_ok s"

text \<open>The sum of \<^verbatim>\<open>scoreAwarded\<close> over the answer rows of one player.\<close>

definition answers_score :: "db \<Rightarrow> string \<Rightarrow> int" where
  "answers_score s pid = sum_list (map scoreAwarded (filter (\<lambda>a. playerId a = pid) (TriviaAnswers s)))"

definition scores_consistent :: "db \<Rightarrow> bool" where
  "scores_consistent s \<longleftrightarrow>
     list_all (\<lambda>p. totalScore p = answers_score s (player_id p)) (TriviaPlayers s)"


text \<open>At most one player row for a room and a signed-in user.\<close>

definition player_pairs_unique :: "db \<Rightarrow> bool" where
  "player_pairs_unique s \<longleftrightarrow>
     distinct (map (\<lambda>p. (player_roomId p, userId p))
                 (filter (\<lambda>p. userId p \<noteq> None) (TriviaPlayers s)))"

section \<open>A small database to run the actions on\<close>

definition demo_rooms :: "room list" where
  "demo_rooms =
     [\<lparr>room_id = ''r1'', hostUserId = ''host'', room_name = ''Friday Fun Quiz'', accessCode = Some ''1234'',
       status = Some ''completed'', maxPlayers = Some 1, room_createdAt = 1, updatedAt = 1\<rparr>,
      \<lparr>room_id = ''r2'', hostUserId = ''carol'', room_name = ''Other'', accessCode = None,
       status = Some ''lobby'', maxPlayers = None, room_createdAt = 2, updatedAt = 2\<rparr>]"

definition demo_players :: "player list" where
  "demo_players =
     [\<lparr>player_id = ''p1'', player_roomId = ''r1'', userId = Some ''alice'', displayName = ''Alice'',
       totalScore = 10, joinedAt = 3, leftAt = None\<rparr>]"

definition demo_questions :: "question list" where
  "demo_questions =
     [\<lparr>question_id = ''q2'', question_roomId = ''r1'', orderIndex = 1, questionText = ''Second?'',
       optionA = Some ''x'', optionB = Some ''y'', optionC = None, optionD = None,
       correctOptionKey = Some ''A'', timeLimitSeconds = None, question_createdAt = 4\<rparr>,
      \<lparr>question_id = ''q1'', question_roomId = ''r1'', orderIndex = 0, questionText = ''First?'',
       optionA = Some ''x'', optionB = Some ''y'', optionC = None, optionD = None,
       correctOptionKey = Some ''B'', timeLimitSeconds = Some 30, question_createdAt = 5\<rparr>,
      \<lparr>question_id = ''q3'', question_roomId = ''r2'', orderIndex = 0, questionText = ''Elsewhere?'',
       optionA = None, optionB = None, optionC = None, optionD = None,
       correctOptionKey = None, timeLimitSeconds = None, question_createdAt = 6\<rparr>]"

definition demo_answers :: "answer list" where
  "demo_answers =
     [\<lparr>answer_id = ''a1'', questionId = ''q1'', playerId = ''p1'', selectedOptionKey = Some ''B'',
       isCorrect = True, answeredAt = 7, scoreAwarded = 10\<rparr>]"

definition demo_db :: db where
  "demo_db = \<lparr>TriviaRooms = demo_rooms, TriviaPlayers = demo_players,
               TriviaQuestions = demo_questions, TriviaAnswers = demo_answers\<rparr>"

definition alice :: user where
  "alice = \<lparr>user_id = ''alice'', user_email = Some ''alice@example.org''\<rparr>"

definition host :: user where
  "host = \<lparr>user_id = ''host'', user_email = None\<rparr>"

definition mallory :: user where
  "mallory = \<lparr>user_id = ''mallory'', user_email = None\<rparr>"

section \<open>Facts about the table API\<close>

lemma find_Some_sat: "find P t = Some x \<Longrightarrow> P x \<and> x \<in> set t"
  by (induction t) (auto split: if_splits)

lemma find_update_where:
  "find P t = Some x \<Longrightarrow> \<forall>r. P (f r) = P r \<Longrightarrow>
   find P (update_where Q f t) = Some (if Q x then f x else x)"
  unfolding update_where_def
proof (induction t)
  case Nil
  then show ?case by simp
next
  case (Cons y ys)
  show ?case
  proof (cases "P y")
    case True
    with Cons.prems show ?thesis by simp
  next
    case False
    with Cons.prems have "find P ys = Some x" by simp
    from Cons.IH [OF this Cons.prems(2)] False Cons.prems(2) show ?thesis by simp
  qed
qed

lemma find_append_new: "find P t = None \<Longrightarrow> P r \<Longrightarrow> find P (t @ [r]) = Some r"
  by (induction t) (auto split: if_splits)

lemma key_text_nonempty: "key_text k \<noteq> []"
  by (cases k) simp_all

lemma answerIsCorrect_iff:
  "answerIsCorrect sel correct \<longleftrightarrow>
     sel \<noteq> None \<and> correct \<noteq> None \<and> map_option key_text sel = correct"
  by (auto simp: answerIsCorrect_def key_text_nonempty split: option.splits)

section \<open>What a permitted recordAnswer call returns and writes\<close>

lemma recordAnswer_insert:
  assumes "recordAnswer_schema inp"
    and "find (\<lambda>q. question_id q = ra_questionId inp) (TriviaQuestions s) = Some q"
    and "find (\<lambda>p. player_id p = ra_playerId inp) (TriviaPlayers s) = Some p"
    and "player_roomId p = question_roomId q"
    and "find (\<lambda>r. room_id r = question_roomId q) (TriviaRooms s) = Some r"
    and "hostUserId r = user_id u \<or> userId p = Some (user_id u)"
    and "existingAnswer inp s = None"
    and "uuid \<notin> answer_id ` set (TriviaAnswers s)"
  shows "recordAnswer inp (Some u) uuid now s =
           (let row = \<lparr>answer_id = uuid, questionId = ra_questionId inp, playerId = ra_playerId inp,
                 selectedOptionKey = map_option key_text (ra_selectedOptionKey inp),
                 isCorrect = answerIsCorrect (ra_selectedOptionKey inp) (correctOptionKey q),
                 answeredAt = now,
                 scoreAwarded =
                   (if answerIsCorrect (ra_selectedOptionKey inp) (correctOptionKey q) then 10 else 0)\<rparr>
            in (Inr row,
            s\<lparr>TriviaAnswers := TriviaAnswers s @ [row],
              TriviaPlayers :=
                update_where (\<lambda>x. player_id x = player_id p)
                  (\<lambda>x. x\<lparr>totalScore := totalScore p - 0 + scoreAwarded row\<rparr>)
                  (TriviaPlayers s)\<rparr>))"
  using assms
  by (simp add: recordAnswer_def recordAnswer_handler_def requireUser_def Let_def insert_row_def)

lemma recordAnswer_update:
  assumes "recordAnswer_schema inp"
    and "find (\<lambda>q. question_id q = ra_questionId inp) (TriviaQuestions s) = Some q"
    and "find (\<lambda>p. player_id p = ra_playerId inp) (TriviaPlayers s) = Some p"
    and "player_roomId p = question_roomId q"
    and "find (\<lambda>r. room_id r = question_roomId q) (TriviaRooms s) = Some r"
    and "hostUserId r = user_id u \<or> userId p = Some (user_id u)"
    and "existingAnswer inp s = Some e"
  shows "recordAnswer inp (Some u) uuid now s =
           (let row = \<lparr>answer_id = answer_id e, questionId = ra_questionId inp, playerId = ra_playerId inp,
                 selectedOptionKey = map_option key_text (ra_selectedOptionKey inp),
                 isCorrect = answerIsCorrect (ra_selectedOptionKey inp) (correctOptionKey q),
                 answeredAt = now,
                 scoreAwarded =
                   (if answerIsCorrect (ra_selectedOptionKey inp) (correctOptionKey q) then 10 else 0)\<rparr>
           in (Inr row,
            s\<lparr>TriviaAnswers :=
                update_where (\<lambda>a. answer_id a = answer_id e)
                  (\<lambda>a. a\<lparr>selectedOptionKey := selectedOptionKey row, isCorrect := isCorrect row,
                         answeredAt := now, scoreAwarded := scoreAwarded row\<rparr>)
                  (TriviaAnswers s),
              TriviaPlayers :=
                update_where (\<lambda>x. player_id x = player_id p)
                  (\<lambda>x. x\<lparr>totalScore := totalScore p - scoreAwarded e + scoreAwarded row\<rparr>)
                  (TriviaPlayers s)\<rparr>))"
  using assms
  by (simp add: recordAnswer_def recordAnswer_handler_def requireUser_def Let_def)

lemmas demo_defs = demo_db_def demo_rooms_def demo_players_def demo_questions_def
  demo_answers_def alice_def host_def mallory_def

lemma recordAnswer_precheck [case_names rejected permitted]:
  obtains e where "e \<noteq> PrimaryKeyError"
      "\<And>uuid now. recordAnswer inp ctx uuid now s = (Inl e, s)"
  | u q p r where "ctx = Some u" "recordAnswer_schema inp"
      "find (\<lambda>q. question_id q = ra_questionId inp) (TriviaQuestions s) = Some q"
      "find (\<lambda>p. player_id p = ra_playerId inp) (TriviaPlayers s) = Some p"
      "player_roomId p = question_roomId q"
      "find (\<lambda>r. room_id r = question_roomId q) (TriviaRooms s) = Some r"
      "hostUserId r = user_id u \<or> userId p = Some (user_id u)"
proof (cases "recordAnswer_schema inp")
  case False
  then have "recordAnswer inp ctx uuid now s = (Inl InputError, s)" for uuid now
    by (simp add: recordAnswer_def)
  then show ?thesis by (rule that(1) [rotated]) simp
next
  case schema: True
  note defs = recordAnswer_def recordAnswer_handler_def requireUser_def
  show ?thesis
  proof (cases ctx)
    case None
    with schema have "recordAnswer inp ctx uuid now s =
        (Inl (ActionError UNAUTHORIZED ''You must be signed in to perform this action.''), s)"
      for uuid now
      by (simp add: defs)
    then show ?thesis by (rule that(1) [rotated]) simp
  next
    case (Some u)
    show ?thesis
    proof (cases "find (\<lambda>q. question_id q = ra_questionId inp) (TriviaQuestions s)")
      case None
      with schema Some have "recordAnswer inp ctx uuid now s =
          (Inl (ActionError NOT_FOUND ''Question not found.''), s)" for uuid now
        by (simp add: defs)
      then show ?thesis by (rule that(1) [rotated]) simp
    next
      case q: (Some q)
      show ?thesis
      proof (cases "find (\<lambda>p. player_id p = ra_playerId inp) (TriviaPlayers s)")
        case None
        with schema Some q have "recordAnswer inp ctx uuid now s =
            (Inl (ActionError NOT_FOUND ''Player not found.''), s)" for uuid now
          by (simp add: defs)
        then show ?thesis by (rule that(1) [rotated]) simp
      next
        case p: (Some p)
        show ?thesis
        proof (cases "player_roomId p = question_roomId q")
          case False
          with schema Some q p have "recordAnswer inp ctx uuid now s =
              (Inl (ActionError BAD_REQUEST ''Player and question are in different rooms.''), s)"
            for uuid now
            by (simp add: defs)
          then show ?thesis by (rule that(1) [rotated]) simp
        next
          case same: True
          show ?thesis
          proof (cases "find (\<lambda>r. room_id r = question_roomId q) (TriviaRooms s)")
            case None
            with schema Some q p same have "recordAnswer inp ctx uuid now s =
                (Inl (ActionError NOT_FOUND ''Room not found.''), s)" for uuid now
              by (simp add: defs)
            then show ?thesis by (rule that(1) [rotated]) simp
          next
            case r: (Some r)
            show ?thesis
            proof (cases "hostUserId r = user_id u \<or> userId p = Some (user_id u)")
              case False
              with schema Some q p same r have "recordAnswer inp ctx uuid now s =
                  (Inl (ActionError FORBIDDEN ''You do not have permission to record this answer.''), s)"
                for uuid now
                by (simp add: defs)
              then show ?thesis by (rule that(1) [rotated]) simp
            next
              case True
              with \<open>ctx = Some u\<close> schema q p same r show ?thesis
                by (intro that(2))
            qed
          qed
        qed
      qed
    qed
  qed
qed

lemma recordAnswer_collision:
  assumes "recordAnswer_schema inp"
    and "find (\<lambda>q. question_id q = ra_questionId inp) (TriviaQuestions s) = Some q"
    and "find (\<lambda>p. player_id p = ra_playerId inp) (TriviaPlayers s) = Some p"
    and "player_roomId p = question_roomId q"
    and "find (\<lambda>r. room_id r = question_roomId q) (TriviaRooms s) = Some r"
    and "hostUserId r = user_id u \<or> userId p = Some (user_id u)"
    and "existingAnswer inp s = None"
    and "uuid \<in> answer_id ` set (TriviaAnswers s)"
  shows "recordAnswer inp (Some u) uuid now s = (Inl PrimaryKeyError, s)"
  using assms
  by (simp add: recordAnswer_def recordAnswer_handler_def requireUser_def Let_def insert_row_def)

lemma recordAnswer_cases [case_names error update insert]:
  obtains e where "recordAnswer inp ctx uuid now s = (Inl e, s)"
  | u q p r e where "ctx = Some u" "recordAnswer_schema inp"
      "find (\<lambda>q. question_id q = ra_questionId inp) (TriviaQuestions s) = Some q"
      "find (\<lambda>p. player_id p = ra_playerId inp) (TriviaPlayers s) = Some p"
      "player_roomId p = question_roomId q"
      "find (\<lambda>r. room_id r = question_roomId q) (TriviaRooms s) = Some r"
      "hostUserId r = user_id u \<or> userId p = Some (user_id u)"
      "existingAnswer inp s = Some e"
  | u q p r where "ctx = Some u" "recordAnswer_schema inp"
      "find (\<lambda>q. question_id q = ra_questionId inp) (TriviaQuestions s) = Some q"
      "find (\<lambda>p. player_id p = ra_playerId inp) (TriviaPlayers s) = Some p"
      "player_roomId p = question_roomId q"
      "find (\<lambda>r. room_id r = question_roomId q) (TriviaRooms s) = Some r"
      "hostUserId r = user_id u \<or> userId p = Some (user_id u)"
      "existingAnswer inp s = None"
      "uuid \<notin> answer_id ` set (TriviaAnswers s)"
proof (cases rule: recordAnswer_precheck [of inp ctx s])
  case (rejected e)
  from rejected(2) [of uuid now] show ?thesis by (rule that(1))
next
  case (permitted u q p r)
  show ?thesis
  proof (cases "existingAnswer inp s")
    case (Some e)
    from permitted Some show ?thesis by (rule that(2))
  next
    case None
    show ?thesis
    proof (cases "uuid \<in> answer_id ` set (TriviaAnswers s)")
      case False
      from permitted None False show ?thesis by (rule that(3))
    next
      case True
      from recordAnswer_collision [OF permitted(2-7) None True] permitted(1)
      have "recordAnswer inp ctx uuid now s = (Inl PrimaryKeyError, s)" by simp
      then show ?thesis by (rule that(1))
    qed
  qed
qed

lemma recordAnswer_error_stable:
  assumes err: "fst (recordAnswer inp ctx uuid now s) = Inl e" and e: "e \<noteq> PrimaryKeyError"
  shows "recordAnswer inp ctx uuid' now' s = (Inl e, s)"
proof (cases rule: recordAnswer_precheck [of inp ctx s])
  case (rejected e')
  from rejected(2) [of uuid now] err have "e' = e" by simp
  with rejected(2) [of uuid' now'] show ?thesis by simp
next
  case (permitted u q p r)
  show ?thesis
  proof (cases "existingAnswer inp s")
    case (Some x)
    from err show ?thesis
      unfolding \<open>ctx = Some u\<close> recordAnswer_update [OF permitted(2-7) Some]
      by (simp add: Let_def)
  next
    case None
    show ?thesis
    proof (cases "uuid \<in> answer_id ` set (TriviaAnswers s)")
      case False
      from err show ?thesis
        unfolding \<open>ctx = Some u\<close> recordAnswer_insert [OF permitted(2-7) None False]
        by (simp add: Let_def)
    next
      case True
      from recordAnswer_collision [OF permitted(2-7) None True, of now] permitted(1) err e
      show ?thesis by simp
    qed
  qed
qed

lemma recordAnswer_error_frame:
  assumes err: "fst (recordAnswer inp ctx uuid now s) = Inl e"
  shows "snd (recordAnswer inp ctx uuid now s) = s"
proof (cases rule: recordAnswer_cases [of inp ctx uuid now s])
  case (error e')
  then show ?thesis by simp
next
  case (update u q p r e')
  from err show ?thesis
    unfolding \<open>ctx = Some u\<close> recordAnswer_update [OF update(2-8)]
    by (simp add: Let_def)
next
  case (insert u q p r)
  from err show ?thesis
    unfolding \<open>ctx = Some u\<close> recordAnswer_insert [OF insert(2-9)]
    by (simp add: Let_def)
qed

section \<open>recordAnswer: the score it awards and the total it writes\<close>

text \<open>
  C1. When the question and the player exist and name the same existing room, and the caller
  is the host of that room or the user of the player, a recordAnswer call (whose generated
  id is not taken, when a row has to be inserted) succeeds. Afterwards the player's
  totalScore is the old one minus previousScore plus newScore, where previousScore is the
  scoreAwarded of the answer row already there for the question and the player (0 without
  one) and newScore is 10 when the selected key and the question's correct key are both
  present and equal, 0 otherwise; the returned answer carries newScore as scoreAwarded and
  that comparison as isCorrect.
\<close>

theorem recordAnswer_score:
  assumes schema: "recordAnswer_schema inp"
    and q: "find (\<lambda>q. question_id q = ra_questionId inp) (TriviaQuestions s) = Some q"
    and p: "find (\<lambda>p. player_id p = ra_playerId inp) (TriviaPlayers s) = Some p"
    and same: "player_roomId p = question_roomId q"
    and r: "find (\<lambda>r. room_id r = question_roomId q) (TriviaRooms s) = Some r"
    and allowed: "hostUserId r = user_id u \<or> userId p = Some (user_id u)"
    and fresh: "existingAnswer inp s = None \<longrightarrow> uuid \<notin> answer_id ` set (TriviaAnswers s)"
  shows "\<exists>a s' p'.
           recordAnswer inp (Some u) uuid now s = (Inr a, s') \<and>
           find (\<lambda>p. player_id p = ra_playerId inp) (TriviaPlayers s') = Some p' \<and>
           (let previousScore = (case existingAnswer inp s of None \<Rightarrow> 0 | Some e \<Rightarrow> scoreAwarded e);
                correct = (ra_selectedOptionKey inp \<noteq> None \<and> correctOptionKey q \<noteq> None \<and>
                           map_option key_text (ra_selectedOptionKey inp) = correctOptionKey q);
                newScore = (if correct then 10 else 0)
            in totalScore p' = totalScore p - previousScore + newScore \<and>
               scoreAwarded a = newScore \<and> isCorrect a = correct)"
proof -
  have pid: "player_id p = ra_playerId inp"
    using find_Some_sat [OF p] by simp
  have found: "find (\<lambda>p. player_id p = ra_playerId inp)
                 (update_where (\<lambda>x. player_id x = player_id p) (\<lambda>x. x\<lparr>totalScore := n\<rparr>) (TriviaPlayers s))
               = Some (p\<lparr>totalScore := n\<rparr>)" for n
    using find_update_where [OF p, of "\<lambda>x. x\<lparr>totalScore := n\<rparr>" "\<lambda>x. player_id x = player_id p"]
    by simp
  show ?thesis
  proof (cases "existingAnswer inp s")
    case None
    with fresh have fr: "uuid \<notin> answer_id ` set (TriviaAnswers s)" by simp
    show ?thesis
      unfolding recordAnswer_insert [OF schema q p same r allowed None fr]
      by (simp add: Let_def found None answerIsCorrect_iff)
  next
    case (Some e)
    show ?thesis
      unfolding recordAnswer_update [OF schema q p same r allowed Some]
      by (simp add: Let_def found Some answerIsCorrect_iff)
  qed
qed

theorem recordAnswer_score_witness:
  "recordAnswer_schema \<lparr>ra_questionId = ''q1'', ra_playerId = ''p1'', ra_selectedOptionKey = Some A\<rparr> \<and>
   existingAnswer \<lparr>ra_questionId = ''q1'', ra_playerId = ''p1'', ra_selectedOptionKey = Some A\<rparr> demo_db
     = Some (demo_answers ! 0) \<and>
   (\<exists>a s' p'.
      recordAnswer \<lparr>ra_questionId = ''q1'', ra_playerId = ''p1'', ra_selectedOptionKey = Some A\<rparr>
        (Some alice) ''a2'' 9 demo_db = (Inr a, s') \<and>
      find (\<lambda>p. player_id p = ''p1'') (TriviaPlayers s') = Some p' \<and>
      totalScore p' = 10 - 10 + 0 \<and> scoreAwarded a = 0 \<and> \<not> isCorrect a)"
proof -
  let ?inp = "\<lparr>ra_questionId = ''q1'', ra_playerId = ''p1'', ra_selectedOptionKey = Some A\<rparr>"
  have schema: "recordAnswer_schema ?inp"
    by (simp add: recordAnswer_schema_def)
  have q: "find (\<lambda>q. question_id q = ra_questionId ?inp) (TriviaQuestions demo_db) = Some (demo_questions ! 1)"
    by (simp add: demo_defs)
  have p: "find (\<lambda>p. player_id p = ra_playerId ?inp) (TriviaPlayers demo_db) = Some (demo_players ! 0)"
    by (simp add: demo_defs)
  have same: "player_roomId (demo_players ! 0) = question_roomId (demo_questions ! 1)"
    by (simp add: demo_defs)
  have r: "find (\<lambda>r. room_id r = question_roomId (demo_questions ! 1)) (TriviaRooms demo_db)
             = Some (demo_rooms ! 0)"
    by (simp add: demo_defs)
  have allowed: "hostUserId (demo_rooms ! 0) = user_id alice \<or>
                 userId (demo_players ! 0) = Some (user_id alice)"
    by (simp add: demo_defs)
  have e: "existingAnswer ?inp demo_db = Some (demo_answers ! 0)"
    by (simp add: demo_defs existingAnswer_def)
  then have fresh: "existingAnswer ?inp demo_db = None \<longrightarrow> ''a2'' \<notin> answer_id ` set (TriviaAnswers demo_db)"
    by simp
  from recordAnswer_score [OF schema q p same r allowed fresh, of 9]
  obtain a s' p' where
    "recordAnswer ?inp (Some alice) ''a2'' 9 demo_db = (Inr a, s')"
    "find (\<lambda>p. player_id p = ''p1'') (TriviaPlayers s') = Some p'"
    "totalScore p' = 10 - 10 + 0 \<and> scoreAwarded a = 0 \<and> \<not> isCorrect a"
    unfolding e by (auto simp: Let_def demo_defs)
  with schema e show ?thesis by blast
qed

section \<open>recordAnswer: refused calls\<close>

text \<open>
  C4. For a signed-in caller, recordAnswer throws BAD_REQUEST when the question and the
  player both exist and name different rooms, and FORBIDDEN when they name the same
  existing room and the caller is neither the host of that room nor the user of the player.
  Whatever error a call ends with, the database is the one it started from.
\<close>

theorem recordAnswer_errors:
  assumes schema: "recordAnswer_schema inp"
    and q: "find (\<lambda>q. question_id q = ra_questionId inp) (TriviaQuestions s) = Some q"
    and p: "find (\<lambda>p. player_id p = ra_playerId inp) (TriviaPlayers s) = Some p"
  shows "(player_roomId p \<noteq> question_roomId q \<longrightarrow>
            recordAnswer inp (Some u) uuid now s =
              (Inl (ActionError BAD_REQUEST ''Player and question are in different rooms.''), s)) \<and>
         (player_roomId p = question_roomId q \<longrightarrow>
            find (\<lambda>r. room_id r = question_roomId q) (TriviaRooms s) = Some r \<longrightarrow>
            hostUserId r \<noteq> user_id u \<longrightarrow> userId p \<noteq> Some (user_id u) \<longrightarrow>
            recordAnswer inp (Some u) uuid now s =
              (Inl (ActionError FORBIDDEN ''You do not have permission to record this answer.''), s)) \<and>
         (\<forall>inp' ctx' uuid' now' s' e.
            fst (recordAnswer inp' ctx' uuid' now' s') = Inl e \<longrightarrow>
            snd (recordAnswer inp' ctx' uuid' now' s') = s')"
proof (intro conjI impI allI)
  assume "player_roomId p \<noteq> question_roomId q"
  with schema q p
  show "recordAnswer inp (Some u) uuid now s =
          (Inl (ActionError BAD_REQUEST ''Player and question are in different rooms.''), s)"
    by (simp add: recordAnswer_def recordAnswer_handler_def requireUser_def)
next
  assume "player_roomId p = question_roomId q"
    and "find (\<lambda>r. room_id r = question_roomId q) (TriviaRooms s) = Some r"
    and "hostUserId r \<noteq> user_id u" and "userId p \<noteq> Some (user_id u)"
  with schema q p
  show "recordAnswer inp (Some u) uuid now s =
          (Inl (ActionError FORBIDDEN ''You do not have permission to record this answer.''), s)"
    by (simp add: recordAnswer_def recordAnswer_handler_def requireUser_def)
next
  fix inp' ctx' uuid' now' s' e
  assume "fst (recordAnswer inp' ctx' uuid' now' s') = Inl e"
  then show "snd (recordAnswer inp' ctx' uuid' now' s') = s'"
    by (rule recordAnswer_error_frame)
qed

theorem recordAnswer_errors_witness:
  "recordAnswer \<lparr>ra_questionId = ''q3'', ra_playerId = ''p1'', ra_selectedOptionKey = Some B\<rparr>
     (Some alice) ''a2'' 9 demo_db =
     (Inl (ActionError BAD_REQUEST ''Player and question are in different rooms.''), demo_db) \<and>
   recordAnswer \<lparr>ra_questionId = ''q1'', ra_playerId = ''p1'', ra_selectedOptionKey = Some B\<rparr>
     (Some mallory) ''a2'' 9 demo_db =
     (Inl (ActionError FORBIDDEN ''You do not have permission to record this answer.''), demo_db)"
proof -
  let ?i3 = "\<lparr>ra_questionId = ''q3'', ra_playerId = ''p1'', ra_selectedOptionKey = Some B\<rparr>"
  let ?i1 = "\<lparr>ra_questionId = ''q1'', ra_playerId = ''p1'', ra_selectedOptionKey = Some B\<rparr>"
  have s3: "recordAnswer_schema ?i3" and s1: "recordAnswer_schema ?i1"
    by (simp_all add: recordAnswer_schema_def)
  have q3: "find (\<lambda>q. question_id q = ra_questionId ?i3) (TriviaQuestions demo_db) = Some (demo_questions ! 2)"
    by (simp add: demo_defs)
  have q1: "find (\<lambda>q. question_id q = ra_questionId ?i1) (TriviaQuestions demo_db) = Some (demo_questions ! 1)"
    by (simp add: demo_defs)
  have p3: "find (\<lambda>p. player_id p = ra_playerId ?i3) (TriviaPlayers demo_db) = Some (demo_players ! 0)"
    by (simp add: demo_defs)
  have p1: "find (\<lambda>p. player_id p = ra_playerId ?i1) (TriviaPlayers demo_db) = Some (demo_players ! 0)"
    by (simp add: demo_defs)
  have diff: "player_roomId (demo_players ! 0) \<noteq> question_roomId (demo_questions ! 2)"
    by (simp add: demo_defs)
  have same: "player_roomId (demo_players ! 0) = question_roomId (demo_questions ! 1)"
    by (simp add: demo_defs)
  have r: "find (\<lambda>r. room_id r = question_roomId (demo_questions ! 1)) (TriviaRooms demo_db)
             = Some (demo_rooms ! 0)"
    by (simp add: demo_defs)
  have no: "hostUserId (demo_rooms ! 0) \<noteq> user_id mallory"
    "userId (demo_players ! 0) \<noteq> Some (user_id mallory)"
    by (simp_all add: demo_defs)
  from recordAnswer_errors [OF s3 q3 p3, where u = alice and uuid = "''a2''" and now = 9] diff
  have a: "recordAnswer ?i3 (Some alice) ''a2'' 9 demo_db =
     (Inl (ActionError BAD_REQUEST ''Player and question are in different rooms.''), demo_db)"
    by blast
  from recordAnswer_errors [OF s1 q1 p1, where u = mallory and uuid = "''a2''" and now = 9
      and r = "demo_rooms ! 0"] same r no
  have b: "recordAnswer ?i1 (Some mallory) ''a2'' 9 demo_db =
     (Inl (ActionError FORBIDDEN ''You do not have permission to record this answer.''), demo_db)"
    by blast
  from a b show ?thesis by simp
qed

section \<open>recordAnswer: one answer row for a question and a player\<close>

lemma map_update_where: "\<forall>r. k (f r) = k r \<Longrightarrow> map k (update_where P f t) = map k t"
  by (induction t) (simp_all add: update_where_def)

lemma update_where_twice:
  "\<forall>r. P (f r) = P r \<Longrightarrow> update_where P g (update_where P f t) = update_where P (\<lambda>r. g (f r)) t"
  by (induction t) (simp_all add: update_where_def)

lemma update_where_id: "\<forall>r\<in>set t. P r \<longrightarrow> f r = r \<Longrightarrow> update_where P f t = t"
  by (induction t) (simp_all add: update_where_def)

lemma existingAnswer_pair:
  "existingAnswer inp s = Some e \<Longrightarrow> questionId e = ra_questionId inp \<and> playerId e = ra_playerId inp"
  unfolding existingAnswer_def by (drule find_Some_sat) simp


lemma map_update_where_on:
  "\<forall>r\<in>set t. P r \<longrightarrow> k (f r) = k r \<Longrightarrow> map k (update_where P f t) = map k t"
  by (induction t) (simp_all add: update_where_def)

lemma update_where_set:
  "x \<in> set (update_where P f t) \<Longrightarrow> P x \<Longrightarrow> \<forall>r. P (f r) = P r \<Longrightarrow> \<exists>y\<in>set t. x = f y"
  by (auto simp: update_where_def split: if_splits)

lemma existingAnswer_after_update:
  assumes "existingAnswer inp s = Some e" and "\<forall>x. questionId (f x) = questionId x \<and> playerId (f x) = playerId x"
    and "TriviaAnswers s' = update_where (\<lambda>a. answer_id a = answer_id e) f (TriviaAnswers s)"
  shows "existingAnswer inp s' = Some (f e)"
proof -
  have "find (\<lambda>a. questionId a = ra_questionId inp \<and> playerId a = ra_playerId inp)
          (update_where (\<lambda>a. answer_id a = answer_id e) f (TriviaAnswers s)) =
        Some (if answer_id e = answer_id e then f e else e)"
    by (rule find_update_where) (use assms in \<open>simp_all add: existingAnswer_def\<close>)
  with assms(3) show ?thesis by (simp add: existingAnswer_def)
qed

lemma existingAnswer_after_insert:
  assumes "existingAnswer inp s = None"
    and "questionId row = ra_questionId inp" "playerId row = ra_playerId inp"
    and "TriviaAnswers s' = TriviaAnswers s @ [row]"
  shows "existingAnswer inp s' = Some row"
  using assms by (simp add: existingAnswer_def find_append_new)





section \<open>recordAnswer: repeating a call\<close>

lemma recordAnswer_again:
  assumes first: "recordAnswer inp ctx uuid now s = (Inr a, s1)"
  shows "\<exists>a' s2.
           recordAnswer inp ctx uuid' now' s1 = (Inr a', s2) \<and>
           answer_id a' = answer_id a \<and> selectedOptionKey a' = selectedOptionKey a \<and>
           isCorrect a' = isCorrect a \<and> scoreAwarded a' = scoreAwarded a \<and>
           TriviaPlayers s2 = TriviaPlayers s1 \<and>
           map (\<lambda>x. x\<lparr>answeredAt := 0\<rparr>) (TriviaAnswers s2) =
             map (\<lambda>x. x\<lparr>answeredAt := 0\<rparr>) (TriviaAnswers s1) \<and>
           TriviaRooms s2 = TriviaRooms s1 \<and> TriviaQuestions s2 = TriviaQuestions s1"
proof -
  let ?correct = "\<lambda>q. answerIsCorrect (ra_selectedOptionKey inp) (correctOptionKey q)"
  let ?row = "\<lambda>i q t. \<lparr>answer_id = i, questionId = ra_questionId inp, playerId = ra_playerId inp,
                 selectedOptionKey = map_option key_text (ra_selectedOptionKey inp),
                 isCorrect = ?correct q, answeredAt = t,
                 scoreAwarded = (if ?correct q then 10 else 0)\<rparr>"
  let ?f = "\<lambda>q t a. a\<lparr>selectedOptionKey := map_option key_text (ra_selectedOptionKey inp),
                       isCorrect := ?correct q, answeredAt := t,
                       scoreAwarded := (if ?correct q then 10 else 0)\<rparr>"
  have second: ?thesis
    if ctx: "ctx = Some u" and schema: "recordAnswer_schema inp"
      and q: "find (\<lambda>q. question_id q = ra_questionId inp) (TriviaQuestions s) = Some q"
      and p: "find (\<lambda>p. player_id p = ra_playerId inp) (TriviaPlayers s) = Some p"
      and same: "player_roomId p = question_roomId q"
      and r: "find (\<lambda>r. room_id r = question_roomId q) (TriviaRooms s) = Some r"
      and allowed: "hostUserId r = user_id u \<or> userId p = Some (user_id u)"
      and a: "a = ?row i q now"
      and rooms: "TriviaRooms s1 = TriviaRooms s" and questions: "TriviaQuestions s1 = TriviaQuestions s"
      and players: "TriviaPlayers s1 =
          update_where (\<lambda>x. player_id x = player_id p) (\<lambda>x. x\<lparr>totalScore := n\<rparr>) (TriviaPlayers s)"
      and e1: "existingAnswer inp s1 = Some (?row i q now)"
      and others: "\<forall>x\<in>set (TriviaAnswers s1). answer_id x = i \<longrightarrow> ?f q now x = x"
    for u q p r i n
  proof -
    let ?p1 = "p\<lparr>totalScore := n\<rparr>"
    have q1: "find (\<lambda>q. question_id q = ra_questionId inp) (TriviaQuestions s1) = Some q"
      using q questions by simp
    have "find (\<lambda>p. player_id p = ra_playerId inp) (TriviaPlayers s1) =
            Some (if player_id p = player_id p then ?p1 else p)"
      unfolding players by (rule find_update_where [OF p]) simp
    then have p1: "find (\<lambda>p. player_id p = ra_playerId inp) (TriviaPlayers s1) = Some ?p1"
      by simp
    have same1: "player_roomId ?p1 = question_roomId q"
      using same by simp
    have r1: "find (\<lambda>r. room_id r = question_roomId q) (TriviaRooms s1) = Some r"
      using r rooms by simp
    have allowed1: "hostUserId r = user_id u \<or> userId ?p1 = Some (user_id u)"
      using allowed by simp
    note run = recordAnswer_update [OF schema q1 p1 same1 r1 allowed1 e1, of uuid' now']
    have pl: "update_where (\<lambda>x. player_id x = player_id p) (\<lambda>x. x\<lparr>totalScore := n\<rparr>)
                (TriviaPlayers s1) = TriviaPlayers s1"
      unfolding players by (simp add: update_where_twice)
    have an: "map (\<lambda>x. x\<lparr>answeredAt := 0\<rparr>)
                (update_where (\<lambda>x. answer_id x = i) (?f q now') (TriviaAnswers s1)) =
              map (\<lambda>x. x\<lparr>answeredAt := 0\<rparr>) (TriviaAnswers s1)"
    proof (rule map_update_where_on, intro ballI impI)
      fix x assume "x \<in> set (TriviaAnswers s1)" and "answer_id x = i"
      with others have "?f q now x = x" by simp
      then have "(?f q now' x)\<lparr>answeredAt := 0\<rparr> = (?f q now' (?f q now x))\<lparr>answeredAt := 0\<rparr>"
        by simp
      also have "\<dots> = (?f q now x)\<lparr>answeredAt := 0\<rparr>" by simp
      also have "\<dots> = x\<lparr>answeredAt := 0\<rparr>" using \<open>?f q now x = x\<close> by simp
      finally show "(?f q now' x)\<lparr>answeredAt := 0\<rparr> = x\<lparr>answeredAt := 0\<rparr>" .
    qed
    show ?thesis
      unfolding ctx run by (simp add: Let_def a pl an)
  qed
  show ?thesis
  proof (cases rule: recordAnswer_cases [of inp ctx uuid now s])
    case (error e)
    with first show ?thesis by simp
  next
    case (update u q p r e)
    note run = recordAnswer_update [OF update(2-8), of uuid now]
    from first have a: "a = ?row (answer_id e) q now"
      and s1: "s1 = s\<lparr>TriviaAnswers :=
                update_where (\<lambda>a. answer_id a = answer_id e) (?f q now) (TriviaAnswers s),
              TriviaPlayers :=
                update_where (\<lambda>x. player_id x = player_id p)
                  (\<lambda>x. x\<lparr>totalScore := totalScore p - scoreAwarded e + (if ?correct q then 10 else 0)\<rparr>)
                  (TriviaPlayers s)\<rparr>"
      unfolding \<open>ctx = Some u\<close> run by (simp_all add: Let_def)
    have "existingAnswer inp s1 = Some (?f q now e)"
      by (rule existingAnswer_after_update [OF update(8)]) (simp_all add: s1)
    moreover have "?f q now e = ?row (answer_id e) q now"
      using existingAnswer_pair [OF update(8)] by simp
    ultimately have e1: "existingAnswer inp s1 = Some (?row (answer_id e) q now)"
      by simp
    have others: "\<forall>x\<in>set (TriviaAnswers s1). answer_id x = answer_id e \<longrightarrow> ?f q now x = x"
    proof (intro ballI impI)
      fix x assume "x \<in> set (TriviaAnswers s1)" and "answer_id x = answer_id e"
      then obtain y where "x = ?f q now y"
        using update_where_set [of x "\<lambda>a. answer_id a = answer_id e" "?f q now" "TriviaAnswers s"]
        by (auto simp: s1)
      then show "?f q now x = x" by simp
    qed
    show ?thesis
      by (rule second [OF update(1-7) a _ _ _ e1 others]) (simp_all add: s1)
  next
    case (insert u q p r)
    note run = recordAnswer_insert [OF insert(2-9), of now]
    from first have a: "a = ?row uuid q now"
      and s1: "s1 = s\<lparr>TriviaAnswers := TriviaAnswers s @ [?row uuid q now],
              TriviaPlayers :=
                update_where (\<lambda>x. player_id x = player_id p)
                  (\<lambda>x. x\<lparr>totalScore := totalScore p - 0 + (if ?correct q then 10 else 0)\<rparr>)
                  (TriviaPlayers s)\<rparr>"
      unfolding \<open>ctx = Some u\<close> run by (auto simp add: Let_def)
    have e1: "existingAnswer inp s1 = Some (?row uuid q now)"
      by (rule existingAnswer_after_insert [OF insert(8)]) (simp_all add: s1)
    have others: "\<forall>x\<in>set (TriviaAnswers s1). answer_id x = uuid \<longrightarrow> ?f q now x = x"
      using insert(9) by (auto simp: s1)
    show ?thesis
      by (rule second [OF insert(1-7) a _ _ _ e1 others]) (simp_all add: s1)
  qed
qed

text \<open>
  C7. A recordAnswer call that succeeded, run again on the database it left with the same
  input (whatever id and time the second run draws), succeeds again, returns an answer
  with the same id, selectedOptionKey, isCorrect and scoreAwarded, leaves every player row
  (so every totalScore) and the rooms and questions as they were, and leaves the answer
  rows as they were up to answeredAt. A call that was refused (for another reason than a
  taken id) changed nothing and is refused again in the same way.
\<close>

theorem recordAnswer_idempotent:
  "(\<forall>a s1. recordAnswer inp ctx uuid now s = (Inr a, s1) \<longrightarrow>
      (\<exists>a' s2.
         recordAnswer inp ctx uuid' now' s1 = (Inr a', s2) \<and>
         answer_id a' = answer_id a \<and> selectedOptionKey a' = selectedOptionKey a \<and>
         isCorrect a' = isCorrect a \<and> scoreAwarded a' = scoreAwarded a \<and>
         TriviaPlayers s2 = TriviaPlayers s1 \<and>
         map (\<lambda>x. x\<lparr>answeredAt := 0\<rparr>) (TriviaAnswers s2) =
           map (\<lambda>x. x\<lparr>answeredAt := 0\<rparr>) (TriviaAnswers s1) \<and>
         TriviaRooms s2 = TriviaRooms s1 \<and> TriviaQuestions s2 = TriviaQuestions s1)) \<and>
   (\<forall>e s1. recordAnswer inp ctx uuid now s = (Inl e, s1) \<longrightarrow> e \<noteq> PrimaryKeyError \<longrightarrow>
      s1 = s \<and> recordAnswer inp ctx uuid' now' s1 = (Inl e, s1))"
proof (intro conjI allI impI)
  fix a s1
  assume "recordAnswer inp ctx uuid now s = (Inr a, s1)"
  then show "\<exists>a' s2.
         recordAnswer inp ctx uuid' now' s1 = (Inr a', s2) \<and>
         answer_id a' = answer_id a \<and> selectedOptionKey a' = selectedOptionKey a \<and>
         isCorrect a' = isCorrect a \<and> scoreAwarded a' = scoreAwarded a \<and>
         TriviaPlayers s2 = TriviaPlayers s1 \<and>
         map (\<lambda>x. x\<lparr>answeredAt := 0\<rparr>) (TriviaAnswers s2) =
           map (\<lambda>x. x\<lparr>answeredAt := 0\<rparr>) (TriviaAnswers s1) \<and>
         TriviaRooms s2 = TriviaRooms s1 \<and> TriviaQuestions s2 = TriviaQuestions s1"
    by (rule recordAnswer_again)
next
  fix e s1
  assume run: "recordAnswer inp ctx uuid now s = (Inl e, s1)" and e: "e \<noteq> PrimaryKeyError"
  from run have err: "fst (recordAnswer inp ctx uuid now s) = Inl e" by simp
  from recordAnswer_error_frame [OF err] run show s1: "s1 = s" by simp
  from recordAnswer_error_stable [OF err e] s1
  show "recordAnswer inp ctx uuid' now' s1 = (Inl e, s1)" by simp
qed

theorem recordAnswer_idempotent_witness:
  "\<exists>a s1 a' s2.
     recordAnswer \<lparr>ra_questionId = ''q2'', ra_playerId = ''p1'', ra_selectedOptionKey = Some A\<rparr>
       (Some alice) ''a2'' 9 demo_db = (Inr a, s1) \<and>
     recordAnswer \<lparr>ra_questionId = ''q2'', ra_playerId = ''p1'', ra_selectedOptionKey = Some A\<rparr>
       (Some alice) ''a3'' 11 s1 = (Inr a', s2) \<and>
     answer_id a' = ''a2'' \<and> scoreAwarded a' = 10 \<and> scoreAwarded a = 10 \<and>
     TriviaPlayers s2 = TriviaPlayers s1 \<and>
     map totalScore (TriviaPlayers s1) = [20]"
proof -
  let ?inp = "\<lparr>ra_questionId = ''q2'', ra_playerId = ''p1'', ra_selectedOptionKey = Some A\<rparr>"
  obtain a s1 where first: "recordAnswer ?inp (Some alice) ''a2'' 9 demo_db = (Inr a, s1)"
    and a: "answer_id a = ''a2''" "scoreAwarded a = 10"
    and s1: "map totalScore (TriviaPlayers s1) = [20]"
    by (simp add: recordAnswer_def recordAnswer_handler_def recordAnswer_schema_def requireUser_def
        existingAnswer_def answerIsCorrect_def insert_row_def update_where_def Let_def demo_defs)
  from recordAnswer_idempotent [where uuid' = "''a3''" and now' = 11, THEN conjunct1, rule_format, OF first]
    a s1 first
  show ?thesis
    by auto
qed

section \<open>Actions reserved to the host of a room\<close>

text \<open>
  C5. When no room has the given id together with the signed-in caller as its host,
  updateRoom, upsertQuestion and listRoomQuestions (the listing of a room's questions)
  each throw NOT_FOUND on an input their schema accepts, and on every input they fail
  and leave the database as it was.
\<close>

theorem owner_only:
  assumes not_host: "\<not> (\<exists>r\<in>set (TriviaRooms s). room_id r = rid \<and> hostUserId r = user_id u)"
  shows "(ur_id i1 = rid \<longrightarrow>
            (updateRoom_schema i1 \<longrightarrow>
               updateRoom i1 (Some u) now s =
                 (Inl (ActionError NOT_FOUND ''Room not found for this user.''), s)) \<and>
            (\<exists>e. updateRoom i1 (Some u) now s = (Inl e, s))) \<and>
         (uq_roomId i2 = rid \<longrightarrow>
            (upsertQuestion_schema i2 \<longrightarrow>
               upsertQuestion i2 (Some u) uuid now s =
                 (Inl (ActionError NOT_FOUND ''Room not found for this user.''), s)) \<and>
            (\<exists>e. upsertQuestion i2 (Some u) uuid now s = (Inl e, s))) \<and>
         (lq_roomId i3 = rid \<longrightarrow>
            (listRoomQuestions_schema i3 \<longrightarrow>
               listRoomQuestions i3 (Some u) s =
                 (Inl (ActionError NOT_FOUND ''Room not found for this user.''), s)) \<and>
            (\<exists>e. listRoomQuestions i3 (Some u) s = (Inl e, s)))"
proof -
  from not_host have "find (\<lambda>r. room_id r = rid \<and> hostUserId r = user_id u) (TriviaRooms s) = None"
    by (simp add: find_None_iff)
  then have load: "loadOwnedRoom rid (user_id u) s =
      Inl (ActionError NOT_FOUND ''Room not found for this user.'')"
    by (simp add: loadOwnedRoom_def)
  have "updateRoom i1 (Some u) now s =
      (if updateRoom_schema i1 then (Inl (ActionError NOT_FOUND ''Room not found for this user.''), s)
       else (Inl InputError, s))" if "ur_id i1 = rid"
    using that load by (simp add: updateRoom_def updateRoom_handler_def requireUser_def)
  moreover have "upsertQuestion i2 (Some u) uuid now s =
      (if upsertQuestion_schema i2 then (Inl (ActionError NOT_FOUND ''Room not found for this user.''), s)
       else (Inl InputError, s))" if "uq_roomId i2 = rid"
    using that load by (simp add: upsertQuestion_def upsertQuestion_handler_def requireUser_def)
  moreover have "listRoomQuestions i3 (Some u) s =
      (if listRoomQuestions_schema i3 then (Inl (ActionError NOT_FOUND ''Room not found for this user.''), s)
       else (Inl InputError, s))" if "lq_roomId i3 = rid"
    using that load by (simp add: listRoomQuestions_def listRoomQuestions_handler_def requireUser_def)
  ultimately show ?thesis by simp
qed

theorem owner_only_witness:
  "\<not> (\<exists>r\<in>set (TriviaRooms demo_db). room_id r = ''r1'' \<and> hostUserId r = user_id mallory) \<and>
   updateRoom \<lparr>ur_id = ''r1'', ur_name = Some ''Mine'', ur_accessCode = None, ur_status = None,
               ur_maxPlayers = None\<rparr> (Some mallory) 9 demo_db =
     (Inl (ActionError NOT_FOUND ''Room not found for this user.''), demo_db) \<and>
   listRoomQuestions \<lparr>lq_roomId = ''r1''\<rparr> (Some mallory) demo_db =
     (Inl (ActionError NOT_FOUND ''Room not found for this user.''), demo_db)"
proof -
  have h: "\<not> (\<exists>r\<in>set (TriviaRooms demo_db). room_id r = ''r1'' \<and> hostUserId r = user_id mallory)"
    by (simp add: demo_defs)
  let ?i1 = "\<lparr>ur_id = ''r1'', ur_name = Some ''Mine'', ur_accessCode = None, ur_status = None,
               ur_maxPlayers = None\<rparr>"
  have s1: "updateRoom_schema ?i1" by (simp add: updateRoom_schema_def)
  have s3: "listRoomQuestions_schema \<lparr>lq_roomId = ''r1''\<rparr>" by (simp add: listRoomQuestions_schema_def)
  from owner_only [OF h, where ?i1.0 = ?i1 and ?i3.0 = "\<lparr>lq_roomId = ''r1''\<rparr>" and now = 9] s1 s3 h
  show ?thesis by simp
qed

section \<open>listRoomQuestions: the questions of a room, in order\<close>

text \<open>
  C6. For a room whose host is the signed-in caller, listRoomQuestions returns exactly the
  questions whose roomId is the given id (each as often as the table holds it), in ascending
  order of orderIndex, with total the number of returned items, and leaves the database as
  it was.
\<close>

theorem listRoomQuestions_sorted:
  assumes schema: "listRoomQuestions_schema inp"
    and owned: "\<exists>r\<in>set (TriviaRooms s). room_id r = lq_roomId inp \<and> hostUserId r = user_id u"
  shows "\<exists>items total.
           listRoomQuestions inp (Some u) s = (Inr (items, total), s) \<and>
           mset items = mset (filter (\<lambda>q. question_roomId q = lq_roomId inp) (TriviaQuestions s)) \<and>
           sorted (map orderIndex items) \<and>
           total = length items"
proof -
  from owned obtain r where
    "find (\<lambda>r. room_id r = lq_roomId inp \<and> hostUserId r = user_id u) (TriviaRooms s) = Some r"
    by (cases "find (\<lambda>r. room_id r = lq_roomId inp \<and> hostUserId r = user_id u) (TriviaRooms s)")
      (auto simp: find_None_iff)
  then have "loadOwnedRoom (lq_roomId inp) (user_id u) s = Inr r"
    by (simp add: loadOwnedRoom_def)
  with schema show ?thesis
    by (simp add: listRoomQuestions_def listRoomQuestions_handler_def requireUser_def Let_def)
qed

theorem listRoomQuestions_sorted_witness:
  "listRoomQuestions_schema \<lparr>lq_roomId = ''r1''\<rparr> \<and>
   (\<exists>r\<in>set (TriviaRooms demo_db). room_id r = ''r1'' \<and> hostUserId r = user_id host) \<and>
   (\<exists>items.
      listRoomQuestions \<lparr>lq_roomId = ''r1''\<rparr> (Some host) demo_db = (Inr (items, 2), demo_db) \<and>
      sorted (map orderIndex items) \<and> set (map question_id items) = {''q1'', ''q2''})"
proof -
  let ?inp = "\<lparr>lq_roomId = ''r1''\<rparr>"
  have schema: "listRoomQuestions_schema ?inp"
    by (simp add: listRoomQuestions_schema_def)
  have owned: "\<exists>r\<in>set (TriviaRooms demo_db). room_id r = lq_roomId ?inp \<and> hostUserId r = user_id host"
    by (simp add: demo_defs)
  from listRoomQuestions_sorted [OF schema owned] obtain items total where
    run: "listRoomQuestions ?inp (Some host) demo_db = (Inr (items, total), demo_db)"
    and m: "mset items = mset (filter (\<lambda>q. question_roomId q = lq_roomId ?inp) (TriviaQuestions demo_db))"
    and srt: "sorted (map orderIndex items)" and total: "total = length items"
    by blast
  from m have "length items = 2"
    by (simp add: demo_defs flip: size_mset)
  moreover from m have
    "set items = set (filter (\<lambda>q. question_roomId q = lq_roomId ?inp) (TriviaQuestions demo_db))"
    by (rule mset_eq_setD)
  then have "set (map question_id items) = {''q1'', ''q2''}"
    by (auto simp: demo_defs)
  ultimately show ?thesis
    using schema owned run srt total by auto
qed

section \<open>joinRoom: which rooms can be joined, and joining twice\<close>

lemma find_Some_iff_ex: "(\<exists>x. find P t = Some x) \<longleftrightarrow> (\<exists>x\<in>set t. P x)"
  by (cases "find P t") (auto simp: find_None_iff dest: find_Some_sat)

lemma joinRoom_no_room:
  assumes "joinRoom_schema inp"
    and "find (\<lambda>r. room_id r = jr_roomId inp) (TriviaRooms s) = None"
  shows "joinRoom inp (Some u) uuid now s = (Inl (ActionError NOT_FOUND ''Room not found.''), s)"
  using assms by (simp add: joinRoom_def joinRoom_handler_def requireUser_def)

lemma joinRoom_existing:
  assumes "joinRoom_schema inp"
    and "find (\<lambda>r. room_id r = jr_roomId inp) (TriviaRooms s) = Some r"
    and "find (\<lambda>p. player_roomId p = jr_roomId inp \<and> userId p = Some (user_id u)) (TriviaPlayers s) = Some e"
  shows "joinRoom inp (Some u) uuid now s = (Inr e, s)"
  using assms by (simp add: joinRoom_def joinRoom_handler_def requireUser_def)

lemma joinRoom_insert:
  assumes "joinRoom_schema inp"
    and "find (\<lambda>r. room_id r = jr_roomId inp) (TriviaRooms s) = Some r"
    and "find (\<lambda>p. player_roomId p = jr_roomId inp \<and> userId p = Some (user_id u)) (TriviaPlayers s) = None"
    and "uuid \<notin> player_id ` set (TriviaPlayers s)"
  shows "joinRoom inp (Some u) uuid now s =
           (Inr (newPlayer inp u uuid now),
            s\<lparr>TriviaPlayers := TriviaPlayers s @ [newPlayer inp u uuid now]\<rparr>)"
  using assms
  by (simp add: joinRoom_def joinRoom_handler_def requireUser_def insert_row_def newPlayer_def)

lemma joinRoom_collision:
  assumes "joinRoom_schema inp"
    and "find (\<lambda>r. room_id r = jr_roomId inp) (TriviaRooms s) = Some r"
    and "find (\<lambda>p. player_roomId p = jr_roomId inp \<and> userId p = Some (user_id u)) (TriviaPlayers s) = None"
    and "uuid \<in> player_id ` set (TriviaPlayers s)"
  shows "joinRoom inp (Some u) uuid now s = (Inl PrimaryKeyError, s)"
  using assms
  by (simp add: joinRoom_def joinRoom_handler_def requireUser_def insert_row_def newPlayer_def)

lemma joinRoom_cases [case_names error existing insert]:
  obtains e where "joinRoom inp ctx uuid now s = (Inl e, s)"
  | u r e where "ctx = Some u" "joinRoom_schema inp"
      "find (\<lambda>r. room_id r = jr_roomId inp) (TriviaRooms s) = Some r"
      "find (\<lambda>p. player_roomId p = jr_roomId inp \<and> userId p = Some (user_id u)) (TriviaPlayers s) = Some e"
  | u r where "ctx = Some u" "joinRoom_schema inp"
      "find (\<lambda>r. room_id r = jr_roomId inp) (TriviaRooms s) = Some r"
      "find (\<lambda>p. player_roomId p = jr_roomId inp \<and> userId p = Some (user_id u)) (TriviaPlayers s) = None"
      "uuid \<notin> player_id ` set (TriviaPlayers s)"
proof (cases "joinRoom_schema inp")
  case False
  then have "joinRoom inp ctx uuid now s = (Inl InputError, s)"
    by (simp add: joinRoom_def)
  then show ?thesis by (rule that(1))
next
  case schema: True
  show ?thesis
  proof (cases ctx)
    case None
    with schema have "joinRoom inp ctx uuid now s =
        (Inl (ActionError UNAUTHORIZED ''You must be signed in to perform this action.''), s)"
      by (simp add: joinRoom_def joinRoom_handler_def requireUser_def)
    then show ?thesis by (rule that(1))
  next
    case (Some u)
    show ?thesis
    proof (cases "find (\<lambda>r. room_id r = jr_roomId inp) (TriviaRooms s)")
      case None
      from joinRoom_no_room [OF schema None] Some show ?thesis by (auto intro: that(1))
    next
      case r: (Some r)
      show ?thesis
      proof (cases "find (\<lambda>p. player_roomId p = jr_roomId inp \<and> userId p = Some (user_id u)) (TriviaPlayers s)")
        case (Some e)
        from \<open>ctx = Some u\<close> schema r Some show ?thesis by (rule that(2))
      next
        case None
        show ?thesis
        proof (cases "uuid \<in> player_id ` set (TriviaPlayers s)")
          case True
          from joinRoom_collision [OF schema r None True] \<open>ctx = Some u\<close> show ?thesis
            by (auto intro: that(1))
        next
          case False
          from \<open>ctx = Some u\<close> schema r None False show ?thesis by (rule that(3))
        qed
      qed
    qed
  qed
qed

lemma find_map_same_key:
  assumes "\<forall>r. k (g r) = k r"
  shows "(find (\<lambda>r. k r = x) (map g t) = None) = (find (\<lambda>r. k r = x) t = None)"
  using assms by (auto simp: find_None_iff)

text \<open>
  C8. For a signed-in caller and an input the schema accepts, joinRoom throws NOT_FOUND
  exactly when no room has the given roomId. When such a room exists the call succeeds,
  the caller already being a player of the room or else the generated id being free; and
  its result and the players it leaves are the same whatever the rooms' other columns
  (accessCode, status, maxPlayers among them) hold.
\<close>

theorem joinRoom_open:
  assumes schema: "joinRoom_schema inp"
  shows "((\<exists>m. fst (joinRoom inp (Some u) uuid now s) = Inl (ActionError NOT_FOUND m)) \<longleftrightarrow>
            \<not> (\<exists>r\<in>set (TriviaRooms s). room_id r = jr_roomId inp)) \<and>
         ((\<exists>r\<in>set (TriviaRooms s). room_id r = jr_roomId inp) \<longrightarrow>
            (\<exists>p\<in>set (TriviaPlayers s). player_roomId p = jr_roomId inp \<and> userId p = Some (user_id u)) \<or>
              uuid \<notin> player_id ` set (TriviaPlayers s) \<longrightarrow>
            (\<exists>pl. fst (joinRoom inp (Some u) uuid now s) = Inr pl)) \<and>
         (\<forall>g. (\<forall>r. room_id (g r) = room_id r) \<longrightarrow>
            fst (joinRoom inp (Some u) uuid now (s\<lparr>TriviaRooms := map g (TriviaRooms s)\<rparr>)) =
              fst (joinRoom inp (Some u) uuid now s) \<and>
            TriviaPlayers (snd (joinRoom inp (Some u) uuid now (s\<lparr>TriviaRooms := map g (TriviaRooms s)\<rparr>))) =
              TriviaPlayers (snd (joinRoom inp (Some u) uuid now s)))"
proof -
  let ?room = "\<lambda>s. find (\<lambda>r. room_id r = jr_roomId inp) (TriviaRooms s)"
  let ?player = "find (\<lambda>p. player_roomId p = jr_roomId inp \<and> userId p = Some (user_id u)) (TriviaPlayers s)"
  have other: "fst (joinRoom inp (Some u) uuid now s') = fst (joinRoom inp (Some u) uuid now s) \<and>
               TriviaPlayers (snd (joinRoom inp (Some u) uuid now s')) =
                 TriviaPlayers (snd (joinRoom inp (Some u) uuid now s))"
    if s': "s' = s\<lparr>TriviaRooms := map g (TriviaRooms s)\<rparr>" and g: "\<forall>r. room_id (g r) = room_id r"
    for g s'
  proof -
    have pl: "TriviaPlayers s' = TriviaPlayers s" by (simp add: s')
    have rooms: "(?room s' = None) = (?room s = None)"
      using find_map_same_key [OF g] by (simp add: s')
    show ?thesis
    proof (cases "?room s")
      case None
      with rooms have "?room s' = None" by simp
      from joinRoom_no_room [OF schema this] joinRoom_no_room [OF schema None] pl
      show ?thesis by simp
    next
      case (Some r)
      with rooms obtain r' where r': "?room s' = Some r'" by auto
      show ?thesis
      proof (cases ?player)
        case e: (Some e)
        from joinRoom_existing [OF schema r', of u e] joinRoom_existing [OF schema Some e] e pl
        show ?thesis by simp
      next
        case None
        show ?thesis
        proof (cases "uuid \<in> player_id ` set (TriviaPlayers s)")
          case True
          from joinRoom_collision [OF schema r', of u uuid] joinRoom_collision [OF schema Some None True]
            None True pl
          show ?thesis by simp
        next
          case False
          from joinRoom_insert [OF schema r', of u uuid] joinRoom_insert [OF schema Some None False]
            None False pl
          show ?thesis by simp
        qed
      qed
    qed
  qed
  have main: "((\<exists>m. fst (joinRoom inp (Some u) uuid now s) = Inl (ActionError NOT_FOUND m)) \<longleftrightarrow>
            \<not> (\<exists>r\<in>set (TriviaRooms s). room_id r = jr_roomId inp)) \<and>
         ((\<exists>r\<in>set (TriviaRooms s). room_id r = jr_roomId inp) \<longrightarrow>
            (\<exists>p\<in>set (TriviaPlayers s). player_roomId p = jr_roomId inp \<and> userId p = Some (user_id u)) \<or>
              uuid \<notin> player_id ` set (TriviaPlayers s) \<longrightarrow>
            (\<exists>pl. fst (joinRoom inp (Some u) uuid now s) = Inr pl))"
  proof (cases "?room s")
    case None
    then have "\<not> (\<exists>r\<in>set (TriviaRooms s). room_id r = jr_roomId inp)"
      by (simp add: find_None_iff)
    with joinRoom_no_room [OF schema None] show ?thesis by simp
  next
    case (Some r)
    then have ex: "\<exists>r\<in>set (TriviaRooms s). room_id r = jr_roomId inp"
      using find_Some_iff_ex [of "\<lambda>r. room_id r = jr_roomId inp" "TriviaRooms s"] by blast
    show ?thesis
    proof (cases ?player)
      case e: (Some e)
      from joinRoom_existing [OF schema Some e] ex show ?thesis by simp
    next
      case None
      then have nop: "\<not> (\<exists>p\<in>set (TriviaPlayers s). player_roomId p = jr_roomId inp \<and> userId p = Some (user_id u))"
        by (simp add: find_None_iff)
      show ?thesis
      proof (cases "uuid \<in> player_id ` set (TriviaPlayers s)")
        case True
        from joinRoom_collision [OF schema Some None True] ex nop True show ?thesis by simp
      next
        case False
        from joinRoom_insert [OF schema Some None False] ex show ?thesis by simp
      qed
    qed
  qed
  from main other show ?thesis by blast
qed

theorem joinRoom_open_witness:
  "joinRoom_schema \<lparr>jr_roomId = ''r1'', jr_displayName = None\<rparr> \<and>
   map status (filter (\<lambda>r. room_id r = ''r1'') (TriviaRooms demo_db)) = [Some ''completed''] \<and>
   map maxPlayers (filter (\<lambda>r. room_id r = ''r1'') (TriviaRooms demo_db)) = [Some 1] \<and>
   (\<exists>pl. fst (joinRoom \<lparr>jr_roomId = ''r1'', jr_displayName = None\<rparr> (Some mallory) ''p2'' 9 demo_db) = Inr pl) \<and>
   length (filter (\<lambda>p. player_roomId p = ''r1'')
             (TriviaPlayers (snd (joinRoom \<lparr>jr_roomId = ''r1'', jr_displayName = None\<rparr>
                (Some mallory) ''p2'' 9 demo_db)))) = 2"
proof -
  let ?inp = "\<lparr>jr_roomId = ''r1'', jr_displayName = None\<rparr>"
  have schema: "joinRoom_schema ?inp"
    by (simp add: joinRoom_schema_def)
  have room: "\<exists>r\<in>set (TriviaRooms demo_db). room_id r = jr_roomId ?inp"
    and fresh: "''p2'' \<notin> player_id ` set (TriviaPlayers demo_db)"
    by (simp_all add: demo_defs)
  from joinRoom_open [OF schema, of mallory "''p2''" 9 demo_db] room fresh
  have ok: "\<exists>pl. fst (joinRoom ?inp (Some mallory) ''p2'' 9 demo_db) = Inr pl"
    by blast
  have "length (filter (\<lambda>p. player_roomId p = ''r1'')
             (TriviaPlayers (snd (joinRoom ?inp (Some mallory) ''p2'' 9 demo_db)))) = 2"
    by (simp add: joinRoom_def joinRoom_handler_def joinRoom_schema_def requireUser_def
        insert_row_def newPlayer_def demo_defs)
  with ok schema show ?thesis
    by (simp add: demo_defs)
qed

text \<open>
  C9. joinRoom keeps at most one player row for a room and a signed-in user. For a
  signed-in caller, an accepted input and an existing room: when a player row of the
  caller in the room is there, the call returns that row and leaves the database as it
  was, whatever displayName is given; when none is there (and the generated id is free),
  the players table grows by exactly the returned row, whose totalScore is 0 and whose
  displayName is the given name, else the user's email, else "Player". A call that
  succeeded, repeated for the same room on the database it left, returns the same row
  and writes nothing.
\<close>

theorem joinRoom_once:
  "(player_pairs_unique s \<longrightarrow> player_pairs_unique (snd (joinRoom inp ctx uuid now s))) \<and>
   (joinRoom_schema inp \<longrightarrow> (\<exists>r\<in>set (TriviaRooms s). room_id r = jr_roomId inp) \<longrightarrow>
      (\<forall>e. find (\<lambda>p. player_roomId p = jr_roomId inp \<and> userId p = Some (user_id u)) (TriviaPlayers s)
             = Some e \<longrightarrow>
           joinRoom inp (Some u) uuid now s = (Inr e, s)) \<and>
      (find (\<lambda>p. player_roomId p = jr_roomId inp \<and> userId p = Some (user_id u)) (TriviaPlayers s)
         = None \<longrightarrow>
       uuid \<notin> player_id ` set (TriviaPlayers s) \<longrightarrow>
       (\<exists>pl. joinRoom inp (Some u) uuid now s = (Inr pl, s\<lparr>TriviaPlayers := TriviaPlayers s @ [pl]\<rparr>) \<and>
             player_id pl = uuid \<and> player_roomId pl = jr_roomId inp \<and>
             userId pl = Some (user_id u) \<and> totalScore pl = 0 \<and>
             displayName pl =
               (case jr_displayName inp of
                  Some n \<Rightarrow> n
                | None \<Rightarrow> (case user_email u of Some m \<Rightarrow> m | None \<Rightarrow> ''Player''))))) \<and>
   (\<forall>pl s1 inp' uuid' now'.
      joinRoom inp ctx uuid now s = (Inr pl, s1) \<longrightarrow>
      joinRoom_schema inp' \<longrightarrow> jr_roomId inp' = jr_roomId inp \<longrightarrow>
      joinRoom inp' ctx uuid' now' s1 = (Inr pl, s1))"
proof (intro conjI impI allI)
  assume inv: "player_pairs_unique s"
  show "player_pairs_unique (snd (joinRoom inp ctx uuid now s))"
  proof (cases rule: joinRoom_cases [of inp ctx uuid now s])
    case (error e)
    with inv show ?thesis by simp
  next
    case (existing u' r e)
    from joinRoom_existing [OF existing(2-4)] existing(1) inv show ?thesis by simp
  next
    case (insert u' r)
    from insert(4) have "(jr_roomId inp, Some (user_id u')) \<notin>
        set (map (\<lambda>p. (player_roomId p, userId p)) (filter (\<lambda>p. userId p \<noteq> None) (TriviaPlayers s)))"
      by (auto simp: find_None_iff)
    with joinRoom_insert [OF insert(2-5), of now] insert(1) inv show ?thesis
      by (simp add: player_pairs_unique_def newPlayer_def)
  qed
next
  fix e
  assume "joinRoom_schema inp" and "\<exists>r\<in>set (TriviaRooms s). room_id r = jr_roomId inp"
    and e: "find (\<lambda>p. player_roomId p = jr_roomId inp \<and> userId p = Some (user_id u)) (TriviaPlayers s) = Some e"
  moreover then obtain r where "find (\<lambda>r. room_id r = jr_roomId inp) (TriviaRooms s) = Some r"
    using find_Some_iff_ex [of "\<lambda>r. room_id r = jr_roomId inp" "TriviaRooms s"] by blast
  ultimately show "joinRoom inp (Some u) uuid now s = (Inr e, s)"
    by (simp add: joinRoom_existing)
next
  assume schema: "joinRoom_schema inp" and "\<exists>r\<in>set (TriviaRooms s). room_id r = jr_roomId inp"
    and none: "find (\<lambda>p. player_roomId p = jr_roomId inp \<and> userId p = Some (user_id u)) (TriviaPlayers s) = None"
    and fresh: "uuid \<notin> player_id ` set (TriviaPlayers s)"
  then obtain r where r: "find (\<lambda>r. room_id r = jr_roomId inp) (TriviaRooms s) = Some r"
    using find_Some_iff_ex [of "\<lambda>r. room_id r = jr_roomId inp" "TriviaRooms s"] by blast
  from joinRoom_insert [OF schema r none fresh, of now]
  show "\<exists>pl. joinRoom inp (Some u) uuid now s = (Inr pl, s\<lparr>TriviaPlayers := TriviaPlayers s @ [pl]\<rparr>) \<and>
             player_id pl = uuid \<and> player_roomId pl = jr_roomId inp \<and>
             userId pl = Some (user_id u) \<and> totalScore pl = 0 \<and>
             displayName pl =
               (case jr_displayName inp of
                  Some n \<Rightarrow> n
                | None \<Rightarrow> (case user_email u of Some m \<Rightarrow> m | None \<Rightarrow> ''Player''))"
    by (simp add: newPlayer_def)
next
  fix pl s1 inp' uuid' now'
  assume first: "joinRoom inp ctx uuid now s = (Inr pl, s1)"
    and schema': "joinRoom_schema inp'" and rid: "jr_roomId inp' = jr_roomId inp"
  show "joinRoom inp' ctx uuid' now' s1 = (Inr pl, s1)"
  proof (cases rule: joinRoom_cases [of inp ctx uuid now s])
    case (error e)
    with first show ?thesis by simp
  next
    case (existing u' r e)
    from joinRoom_existing [OF existing(2-4), of uuid now] first
    have pl: "pl = e" and s1: "s1 = s"
      unfolding existing(1) by auto
    have r1: "find (\<lambda>r. room_id r = jr_roomId inp') (TriviaRooms s1) = Some r"
      using existing(3) rid s1 by simp
    have e1: "find (\<lambda>p. player_roomId p = jr_roomId inp' \<and> userId p = Some (user_id u'))
                (TriviaPlayers s1) = Some pl"
      using existing(4) rid s1 pl by simp
    from joinRoom_existing [OF schema' r1 e1] show ?thesis
      unfolding existing(1) .
  next
    case (insert u' r)
    let ?new = "newPlayer inp u' uuid now"
    from joinRoom_insert [OF insert(2-5), of now] first
    have pl: "pl = ?new" and s1: "s1 = s\<lparr>TriviaPlayers := TriviaPlayers s @ [?new]\<rparr>"
      unfolding insert(1) by auto
    have "find (\<lambda>p. player_roomId p = jr_roomId inp \<and> userId p = Some (user_id u'))
            (TriviaPlayers s @ [?new]) = Some ?new"
      by (rule find_append_new [OF insert(4)]) (simp add: newPlayer_def)
    then have e1: "find (\<lambda>p. player_roomId p = jr_roomId inp' \<and> userId p = Some (user_id u'))
                (TriviaPlayers s1) = Some pl"
      unfolding pl s1 rid by simp
    have r1: "find (\<lambda>r. room_id r = jr_roomId inp') (TriviaRooms s1) = Some r"
      using insert(3) unfolding rid s1 by simp
    from joinRoom_existing [OF schema' r1 e1] show ?thesis
      unfolding insert(1) .
  qed
qed

theorem joinRoom_once_witness:
  "player_pairs_unique demo_db \<and>
   player_pairs_unique
     (snd (joinRoom \<lparr>jr_roomId = ''r1'', jr_displayName = None\<rparr> (Some alice) ''p2'' 9 demo_db)) \<and>
   joinRoom \<lparr>jr_roomId = ''r1'', jr_displayName = Some ''Other name''\<rparr> (Some alice) ''p2'' 9 demo_db =
     (Inr (demo_players ! 0), demo_db) \<and>
   (\<exists>pl. joinRoom \<lparr>jr_roomId = ''r1'', jr_displayName = None\<rparr> (Some mallory) ''p2'' 9 demo_db =
           (Inr pl, demo_db\<lparr>TriviaPlayers := TriviaPlayers demo_db @ [pl]\<rparr>) \<and>
         totalScore pl = 0 \<and> displayName pl = ''Player'')"
proof -
  let ?a = "\<lparr>jr_roomId = ''r1'', jr_displayName = None\<rparr>"
  let ?b = "\<lparr>jr_roomId = ''r1'', jr_displayName = Some ''Other name''\<rparr>"
  have inv: "player_pairs_unique demo_db"
    by (simp add: player_pairs_unique_def demo_defs)
  have sa: "joinRoom_schema ?a" and sb: "joinRoom_schema ?b"
    by (simp_all add: joinRoom_schema_def)
  have ra: "\<exists>r\<in>set (TriviaRooms demo_db). room_id r = jr_roomId ?a"
    and rb: "\<exists>r\<in>set (TriviaRooms demo_db). room_id r = jr_roomId ?b"
    by (simp_all add: demo_defs)
  have e: "find (\<lambda>p. player_roomId p = jr_roomId ?b \<and> userId p = Some (user_id alice))
             (TriviaPlayers demo_db) = Some (demo_players ! 0)"
    and none: "find (\<lambda>p. player_roomId p = jr_roomId ?a \<and> userId p = Some (user_id mallory))
                 (TriviaPlayers demo_db) = None"
    and fresh: "''p2'' \<notin> player_id ` set (TriviaPlayers demo_db)"
    by (simp_all add: demo_defs)
  have 1: "player_pairs_unique (snd (joinRoom ?a (Some alice) ''p2'' 9 demo_db))"
    by (rule joinRoom_once [of demo_db ?a "Some alice" "''p2''" 9, THEN conjunct1, rule_format, OF inv])
  have 2: "joinRoom ?b (Some alice) ''p2'' 9 demo_db = (Inr (demo_players ! 0), demo_db)"
    by (rule joinRoom_once [of demo_db ?b _ "''p2''" 9 alice, THEN conjunct2, THEN conjunct1,
          rule_format, OF sb rb, THEN conjunct1, rule_format, OF e])
  note joinRoom_once [of demo_db ?a _ "''p2''" 9 mallory, THEN conjunct2, THEN conjunct1,
          rule_format, OF sa ra, THEN conjunct2, rule_format, OF none fresh]
  then obtain pl where run: "joinRoom ?a (Some mallory) ''p2'' 9 demo_db =
              (Inr pl, demo_db\<lparr>TriviaPlayers := TriviaPlayers demo_db @ [pl]\<rparr>)"
    and score: "totalScore pl = 0"
    and name: "displayName pl =
           (case jr_displayName ?a of
              Some n \<Rightarrow> n
            | None \<Rightarrow> (case user_email mallory of Some m \<Rightarrow> m | None \<Rightarrow> ''Player''))"
    by blast
  from name have "displayName pl = ''Player''"
    by (simp add: mallory_def)
  with run score have 3: "\<exists>pl. joinRoom ?a (Some mallory) ''p2'' 9 demo_db =
              (Inr pl, demo_db\<lparr>TriviaPlayers := TriviaPlayers demo_db @ [pl]\<rparr>) \<and>
            totalScore pl = 0 \<and> displayName pl = ''Player''"
    by blast
  from inv 1 2 3 show ?thesis by blast
qed

section \<open>updateRoom: what is written\<close>

lemma updateRoom_nothing:
  assumes "updateRoom_schema inp"
    and "find (\<lambda>r. room_id r = ur_id inp \<and> hostUserId r = user_id u) (TriviaRooms s) = Some r"
    and "ur_name inp = None" "ur_accessCode inp = None" "ur_status inp = None" "ur_maxPlayers inp = None"
  shows "updateRoom inp (Some u) now s =
           (Inl (ActionError BAD_REQUEST ''No changes provided for update.''), s)"
  using assms
  by (simp add: updateRoom_def updateRoom_handler_def requireUser_def loadOwnedRoom_def
      build_updates_def keys_length_def)

lemma status_text_nonempty: "status_text st \<noteq> []"
  by (cases st) simp_all

lemma updateRoom_keys:
  assumes "updateRoom_schema inp"
    and "ur_name inp \<noteq> None \<or> ur_accessCode inp \<noteq> None \<or> ur_status inp \<noteq> None \<or> ur_maxPlayers inp \<noteq> None"
  shows "keys_length (build_updates inp now) \<noteq> 1"
  using assms
  by (auto simp: updateRoom_schema_def build_updates_def keys_length_def status_text_nonempty
      split: option.splits)

lemma set_room_build:
  assumes "updateRoom_schema inp"
  shows "set_room (build_updates inp now) x =
           \<lparr>room_id = room_id x,
            hostUserId = hostUserId x,
            room_name = (case ur_name inp of None \<Rightarrow> room_name x | Some n \<Rightarrow> n),
            accessCode = (case ur_accessCode inp of None \<Rightarrow> accessCode x | Some c \<Rightarrow> Some c),
            status = (case ur_status inp of None \<Rightarrow> status x | Some st \<Rightarrow> Some (status_text st)),
            maxPlayers = (case ur_maxPlayers inp of None \<Rightarrow> maxPlayers x | Some m \<Rightarrow> Some m),
            room_createdAt = room_createdAt x,
            updatedAt = now\<rparr>"
  using assms
  by (cases x)
    (auto simp: updateRoom_schema_def build_updates_def set_room_def status_text_nonempty
      split: option.splits)

text \<open>
  C10. For a signed-in caller who hosts the room named by an accepted input: when none of
  name, accessCode, status and maxPlayers is given, updateRoom throws BAD_REQUEST and leaves
  the database as it was; when at least one is given, it succeeds, the row with that id gets
  the given fields and updatedAt and keeps every other column, every other room row is
  unchanged, and so are the players, questions and answers tables.
\<close>

theorem updateRoom_frame:
  assumes schema: "updateRoom_schema inp"
    and owned: "\<exists>r\<in>set (TriviaRooms s). room_id r = ur_id inp \<and> hostUserId r = user_id u"
  shows "(ur_name inp = None \<and> ur_accessCode inp = None \<and> ur_status inp = None \<and>
          ur_maxPlayers inp = None \<longrightarrow>
            updateRoom inp (Some u) now s =
              (Inl (ActionError BAD_REQUEST ''No changes provided for update.''), s)) \<and>
         (\<not> (ur_name inp = None \<and> ur_accessCode inp = None \<and> ur_status inp = None \<and>
             ur_maxPlayers inp = None) \<longrightarrow>
            (\<exists>r' s'.
               updateRoom inp (Some u) now s = (Inr r', s') \<and>
               TriviaRooms s' =
                 map (\<lambda>x. if room_id x = ur_id inp
                          then \<lparr>room_id = room_id x,
                                hostUserId = hostUserId x,
                                room_name = (case ur_name inp of None \<Rightarrow> room_name x | Some n \<Rightarrow> n),
                                accessCode =
                                  (case ur_accessCode inp of None \<Rightarrow> accessCode x | Some c \<Rightarrow> Some c),
                                status =
                                  (case ur_status inp of None \<Rightarrow> status x
                                   | Some st \<Rightarrow> Some (status_text st)),
                                maxPlayers =
                                  (case ur_maxPlayers inp of None \<Rightarrow> maxPlayers x | Some m \<Rightarrow> Some m),
                                room_createdAt = room_createdAt x,
                                updatedAt = now\<rparr>
                          else x) (TriviaRooms s) \<and>
               TriviaPlayers s' = TriviaPlayers s \<and>
               TriviaQuestions s' = TriviaQuestions s \<and>
               TriviaAnswers s' = TriviaAnswers s))"
proof -
  from owned obtain r where
    r: "find (\<lambda>r. room_id r = ur_id inp \<and> hostUserId r = user_id u) (TriviaRooms s) = Some r"
    using find_Some_iff_ex [of "\<lambda>r. room_id r = ur_id inp \<and> hostUserId r = user_id u" "TriviaRooms s"]
    by blast
  then have rid: "room_id r = ur_id inp"
    by (auto dest: find_Some_sat)
  show ?thesis
  proof (intro conjI impI)
    assume "ur_name inp = None \<and> ur_accessCode inp = None \<and> ur_status inp = None \<and>
            ur_maxPlayers inp = None"
    then show "updateRoom inp (Some u) now s =
        (Inl (ActionError BAD_REQUEST ''No changes provided for update.''), s)"
      using updateRoom_nothing [OF schema r] by simp
  next
    assume "\<not> (ur_name inp = None \<and> ur_accessCode inp = None \<and> ur_status inp = None \<and>
               ur_maxPlayers inp = None)"
    then have "keys_length (build_updates inp now) \<noteq> 1"
      using updateRoom_keys [OF schema] by blast
    with schema r rid have run: "updateRoom inp (Some u) now s =
        (Inr (set_room (build_updates inp now) r),
         s\<lparr>TriviaRooms :=
             update_where (\<lambda>x. room_id x = ur_id inp) (set_room (build_updates inp now))
               (TriviaRooms s)\<rparr>)"
      by (simp add: updateRoom_def updateRoom_handler_def requireUser_def loadOwnedRoom_def Let_def)
    show "\<exists>r' s'.
               updateRoom inp (Some u) now s = (Inr r', s') \<and>
               TriviaRooms s' =
                 map (\<lambda>x. if room_id x = ur_id inp
                          then \<lparr>room_id = room_id x,
                                hostUserId = hostUserId x,
                                room_name = (case ur_name inp of None \<Rightarrow> room_name x | Some n \<Rightarrow> n),
                                accessCode =
                                  (case ur_accessCode inp of None \<Rightarrow> accessCode x | Some c \<Rightarrow> Some c),
                                status =
                                  (case ur_status inp of None \<Rightarrow> status x
                                   | Some st \<Rightarrow> Some (status_text st)),
                                maxPlayers =
                                  (case ur_maxPlayers inp of None \<Rightarrow> maxPlayers x | Some m \<Rightarrow> Some m),
                                room_createdAt = room_createdAt x,
                                updatedAt = now\<rparr>
                          else x) (TriviaRooms s) \<and>
               TriviaPlayers s' = TriviaPlayers s \<and>
               TriviaQuestions s' = TriviaQuestions s \<and>
               TriviaAnswers s' = TriviaAnswers s"
      unfolding run by (simp add: update_where_def set_room_build [OF schema])
  qed
qed

theorem updateRoom_frame_witness:
  "updateRoom \<lparr>ur_id = ''r1'', ur_name = None, ur_accessCode = None, ur_status = None,
               ur_maxPlayers = None\<rparr> (Some host) 9 demo_db =
     (Inl (ActionError BAD_REQUEST ''No changes provided for update.''), demo_db) \<and>
   (\<exists>r' s'.
      updateRoom \<lparr>ur_id = ''r1'', ur_name = None, ur_accessCode = Some [], ur_status = Some Lobby,
                  ur_maxPlayers = None\<rparr> (Some host) 9 demo_db = (Inr r', s') \<and>
      map accessCode (TriviaRooms s') = [Some [], None] \<and>
      map status (TriviaRooms s') = [Some ''lobby'', Some ''lobby''] \<and>
      map updatedAt (TriviaRooms s') = [9, 2] \<and>
      map room_name (TriviaRooms s') = [''Friday Fun Quiz'', ''Other''] \<and>
      TriviaPlayers s' = TriviaPlayers demo_db)"
proof -
  let ?none = "\<lparr>ur_id = ''r1'', ur_name = None, ur_accessCode = None, ur_status = None,
               ur_maxPlayers = None\<rparr>"
  let ?some = "\<lparr>ur_id = ''r1'', ur_name = None, ur_accessCode = Some [], ur_status = Some Lobby,
                  ur_maxPlayers = None\<rparr>"
  have s1: "updateRoom_schema ?none" and s2: "updateRoom_schema ?some"
    by (simp_all add: updateRoom_schema_def)
  have o1: "\<exists>r\<in>set (TriviaRooms demo_db). room_id r = ur_id ?none \<and> hostUserId r = user_id host"
    and o2: "\<exists>r\<in>set (TriviaRooms demo_db). room_id r = ur_id ?some \<and> hostUserId r = user_id host"
    by (simp_all add: demo_defs)
  have n1: "ur_name ?none = None \<and> ur_accessCode ?none = None \<and> ur_status ?none = None \<and>
            ur_maxPlayers ?none = None"
    and n2: "\<not> (ur_name ?some = None \<and> ur_accessCode ?some = None \<and> ur_status ?some = None \<and>
               ur_maxPlayers ?some = None)"
    by simp_all
  have 1: "updateRoom ?none (Some host) 9 demo_db =
     (Inl (ActionError BAD_REQUEST ''No changes provided for update.''), demo_db)"
    by (rule updateRoom_frame [OF s1 o1, of 9, THEN conjunct1, rule_format, OF n1])
  note updateRoom_frame [OF s2 o2, of 9, THEN conjunct2, rule_format, OF n2]
  then obtain r' s' where run: "updateRoom ?some (Some host) 9 demo_db = (Inr r', s')"
    and rooms: "TriviaRooms s' =
                 map (\<lambda>x. if room_id x = ur_id ?some
                          then \<lparr>room_id = room_id x,
                                hostUserId = hostUserId x,
                                room_name = (case ur_name ?some of None \<Rightarrow> room_name x | Some n \<Rightarrow> n),
                                accessCode =
                                  (case ur_accessCode ?some of None \<Rightarrow> accessCode x | Some c \<Rightarrow> Some c),
                                status =
                                  (case ur_status ?some of None \<Rightarrow> status x
                                   | Some st \<Rightarrow> Some (status_text st)),
                                maxPlayers =
                                  (case ur_maxPlayers ?some of None \<Rightarrow> maxPlayers x | Some m \<Rightarrow> Some m),
                                room_createdAt = room_createdAt x,
                                updatedAt = 9\<rparr>
                          else x) (TriviaRooms demo_db)"
    and players: "TriviaPlayers s' = TriviaPlayers demo_db"
    by blast
  from rooms have cols: "map accessCode (TriviaRooms s') = [Some [], None] \<and>
      map status (TriviaRooms s') = [Some ''lobby'', Some ''lobby''] \<and>
      map updatedAt (TriviaRooms s') = [9, 2] \<and>
      map room_name (TriviaRooms s') = [''Friday Fun Quiz'', ''Other'']"
    by (simp add: demo_defs)
  show ?thesis
  proof (rule conjI [OF 1], rule exI [of _ r'], rule exI [of _ s'])
    from run cols players
    show "updateRoom ?some (Some host) 9 demo_db = (Inr r', s') \<and>
      map accessCode (TriviaRooms s') = [Some [], None] \<and>
      map status (TriviaRooms s') = [Some ''lobby'', Some ''lobby''] \<and>
      map updatedAt (TriviaRooms s') = [9, 2] \<and>
      map room_name (TriviaRooms s') = [''Friday Fun Quiz'', ''Other''] \<and>
      TriviaPlayers s' = TriviaPlayers demo_db"
      by simp
  qed
qed

section \<open>The score invariant, across all actions\<close>

lemma createRoom_shape:
  "snd (createRoom inp ctx uuid now s) = s \<or>
   (\<exists>r. room_id r = uuid \<and> uuid \<notin> room_id ` set (TriviaRooms s) \<and>
        snd (createRoom inp ctx uuid now s) = s\<lparr>TriviaRooms := TriviaRooms s @ [r]\<rparr>)"
proof (cases "createRoom_schema inp \<and> ctx \<noteq> None \<and> uuid \<notin> room_id ` set (TriviaRooms s)")
  case False
  then have "snd (createRoom inp ctx uuid now s) = s"
    by (cases ctx)
      (auto simp: createRoom_def createRoom_handler_def requireUser_def insert_row_def Let_def)
  then show ?thesis ..
next
  case True
  then obtain u where u: "ctx = Some u" by auto
  let ?r = "\<lparr>room_id = uuid, hostUserId = user_id u, room_name = cr_name inp,
             accessCode = cr_accessCode inp,
             status = Some (case cr_status inp of None \<Rightarrow> ''lobby'' | Some st \<Rightarrow> status_text st),
             maxPlayers = cr_maxPlayers inp, room_createdAt = now, updatedAt = now\<rparr>"
  from True u have "snd (createRoom inp ctx uuid now s) = s\<lparr>TriviaRooms := TriviaRooms s @ [?r]\<rparr>"
    by (simp add: createRoom_def createRoom_handler_def requireUser_def insert_row_def Let_def)
  with True show ?thesis
    by (intro disjI2 exI [of _ ?r]) simp
qed

lemma updateRoom_shape:
  "snd (updateRoom inp ctx now s) = s \<or>
   (\<exists>g. (\<forall>x. room_id (g x) = room_id x) \<and>
        snd (updateRoom inp ctx now s) = s\<lparr>TriviaRooms := map g (TriviaRooms s)\<rparr>)"
proof (cases "updateRoom_schema inp \<and> ctx \<noteq> None")
  case False
  then show ?thesis
    by (auto simp: updateRoom_def updateRoom_handler_def requireUser_def)
next
  case True
  then obtain u where u: "ctx = Some u" and schema: "updateRoom_schema inp" by auto
  show ?thesis
  proof (cases "loadOwnedRoom (ur_id inp) (user_id u) s")
    case (Inl e)
    with u schema show ?thesis
      by (simp add: updateRoom_def updateRoom_handler_def requireUser_def)
  next
    case (Inr r)
    let ?g = "\<lambda>x. if room_id x = room_id r then set_room (build_updates inp now) x else x"
    have key: "\<forall>x. room_id (?g x) = room_id x"
      by (simp add: set_room_def)
    have "snd (updateRoom inp ctx now s) = s \<or>
        snd (updateRoom inp ctx now s) = s\<lparr>TriviaRooms := map ?g (TriviaRooms s)\<rparr>"
      using u schema Inr
      by (simp add: updateRoom_def updateRoom_handler_def requireUser_def Let_def update_where_def)
    then show ?thesis
    proof
      assume "snd (updateRoom inp ctx now s) = s"
      then show ?thesis ..
    next
      assume "snd (updateRoom inp ctx now s) = s\<lparr>TriviaRooms := map ?g (TriviaRooms s)\<rparr>"
      with key show ?thesis
        by (intro disjI2 exI [of _ ?g]) simp
    qed
  qed
qed

lemma listMyRooms_shape: "snd (listMyRooms inp ctx s) = s"
  by (cases ctx) (simp_all add: listMyRooms_def listMyRooms_handler_def requireUser_def Let_def)

lemma listRoomQuestions_shape: "snd (listRoomQuestions inp ctx s) = s"
  by (cases ctx; cases "loadOwnedRoom (lq_roomId inp) (user_id (the ctx)) s")
    (simp_all add: listRoomQuestions_def listRoomQuestions_handler_def requireUser_def Let_def)

lemma loadOwnedRoom_exists:
  "loadOwnedRoom rid uid s = Inr r \<Longrightarrow> rid \<in> room_id ` set (TriviaRooms s)"
  by (auto simp: loadOwnedRoom_def split: option.splits dest!: find_Some_sat)

lemma upsertQuestion_shape:
  "snd (upsertQuestion inp ctx uuid now s) = s \<or>
   (\<exists>g. (\<forall>x. question_id (g x) = question_id x) \<and>
        (\<forall>x. g x = x \<or> question_roomId (g x) \<in> room_id ` set (TriviaRooms s)) \<and>
        snd (upsertQuestion inp ctx uuid now s) = s\<lparr>TriviaQuestions := map g (TriviaQuestions s)\<rparr>) \<or>
   (\<exists>q. question_id q \<notin> question_id ` set (TriviaQuestions s) \<and>
        question_roomId q \<in> room_id ` set (TriviaRooms s) \<and>
        snd (upsertQuestion inp ctx uuid now s) = s\<lparr>TriviaQuestions := TriviaQuestions s @ [q]\<rparr>)"
proof (cases "upsertQuestion_schema inp \<and> ctx \<noteq> None")
  case False
  then show ?thesis
    by (auto simp: upsertQuestion_def upsertQuestion_handler_def requireUser_def)
next
  case True
  then obtain u where u: "ctx = Some u" and schema: "upsertQuestion_schema inp" by auto
  show ?thesis
  proof (cases "loadOwnedRoom (uq_roomId inp) (user_id u) s")
    case (Inl e)
    with u schema show ?thesis
      by (simp add: upsertQuestion_def upsertQuestion_handler_def requireUser_def)
  next
    case (Inr r)
    note room = loadOwnedRoom_exists [OF Inr]
    show ?thesis
    proof (cases "case uq_id inp of None \<Rightarrow> None | Some i \<Rightarrow> if i = [] then None else Some i")
      case None
      show ?thesis
      proof (cases "uuid \<in> question_id ` set (TriviaQuestions s)")
        case True
        with u schema Inr None have "snd (upsertQuestion inp ctx uuid now s) = s"
          by (simp add: upsertQuestion_def upsertQuestion_handler_def requireUser_def insert_row_def
              newQuestion_def)
        then show ?thesis by simp
      next
        case False
        with u schema Inr None have "snd (upsertQuestion inp ctx uuid now s) =
            s\<lparr>TriviaQuestions := TriviaQuestions s @ [newQuestion inp uuid now]\<rparr>"
          by (simp add: upsertQuestion_def upsertQuestion_handler_def requireUser_def insert_row_def
              newQuestion_def)
        moreover have "question_id (newQuestion inp uuid now) \<notin> question_id ` set (TriviaQuestions s)"
          "question_roomId (newQuestion inp uuid now) \<in> room_id ` set (TriviaRooms s)"
          using False room by (simp_all add: newQuestion_def)
        ultimately show ?thesis
          by (intro disjI2 exI [of _ "newQuestion inp uuid now"] conjI) simp_all
      qed
    next
      case (Some i)
      let ?g = "\<lambda>x. if question_id x = i then questionPayload inp x else x"
      have key: "\<forall>x. question_id (?g x) = question_id x"
        by (simp add: questionPayload_def)
      have ref: "\<forall>x. ?g x = x \<or> question_roomId (?g x) \<in> room_id ` set (TriviaRooms s)"
        using room by (simp add: questionPayload_def)
      have "snd (upsertQuestion inp ctx uuid now s) = s \<or>
          snd (upsertQuestion inp ctx uuid now s) = s\<lparr>TriviaQuestions := map ?g (TriviaQuestions s)\<rparr>"
        using u schema Inr Some
        by (simp add: upsertQuestion_def upsertQuestion_handler_def requireUser_def update_where_def
            split: option.splits)
      then show ?thesis
      proof
        assume "snd (upsertQuestion inp ctx uuid now s) = s"
        then show ?thesis ..
      next
        assume "snd (upsertQuestion inp ctx uuid now s) =
                  s\<lparr>TriviaQuestions := map ?g (TriviaQuestions s)\<rparr>"
        with key ref show ?thesis
          by (intro disjI2 disjI1 exI [of _ ?g]) simp
      qed
    qed
  qed
qed

lemmas inv_defs = schema_ok_def primary_keys_ok_def references_ok_def scores_consistent_def
  answers_score_def list_all_iff

lemma inv_rooms_append:
  assumes "schema_ok s" "scores_consistent s" "room_id r \<notin> room_id ` set (TriviaRooms s)"
  shows "schema_ok (s\<lparr>TriviaRooms := TriviaRooms s @ [r]\<rparr>) \<and>
         scores_consistent (s\<lparr>TriviaRooms := TriviaRooms s @ [r]\<rparr>)"
  using assms by (simp add: inv_defs)

lemma inv_rooms_map:
  assumes "schema_ok s" "scores_consistent s" "\<forall>x. room_id (g x) = room_id x"
  shows "schema_ok (s\<lparr>TriviaRooms := map g (TriviaRooms s)\<rparr>) \<and>
         scores_consistent (s\<lparr>TriviaRooms := map g (TriviaRooms s)\<rparr>)"
proof -
  from assms(3) have "room_id \<circ> g = room_id"
    by (simp add: fun_eq_iff)
  with assms show ?thesis
    by (simp add: inv_defs image_image)
qed

lemma inv_questions_append:
  assumes "schema_ok s" "scores_consistent s"
    "question_id q \<notin> question_id ` set (TriviaQuestions s)"
    "question_roomId q \<in> room_id ` set (TriviaRooms s)"
  shows "schema_ok (s\<lparr>TriviaQuestions := TriviaQuestions s @ [q]\<rparr>) \<and>
         scores_consistent (s\<lparr>TriviaQuestions := TriviaQuestions s @ [q]\<rparr>)"
  using assms by (simp add: inv_defs)

lemma inv_questions_map:
  assumes "schema_ok s" "scores_consistent s" "\<forall>x. question_id (g x) = question_id x"
    "\<forall>x. g x = x \<or> question_roomId (g x) \<in> room_id ` set (TriviaRooms s)"
  shows "schema_ok (s\<lparr>TriviaQuestions := map g (TriviaQuestions s)\<rparr>) \<and>
         scores_consistent (s\<lparr>TriviaQuestions := map g (TriviaQuestions s)\<rparr>)"
proof -
  from assms(3) have ids: "question_id \<circ> g = question_id"
    by (simp add: fun_eq_iff)
  have refs: "question_roomId (g x) \<in> room_id ` set (TriviaRooms s)"
    if "question_roomId x \<in> room_id ` set (TriviaRooms s)" for x
    using assms(4) [rule_format, of x] that by auto
  from assms(1,2,3) ids refs show ?thesis
    by (simp add: inv_defs image_image)
qed

lemma inv_players_append:
  assumes "schema_ok s" "scores_consistent s"
    "player_id p \<notin> player_id ` set (TriviaPlayers s)"
    "player_roomId p \<in> room_id ` set (TriviaRooms s)"
    "totalScore p = 0"
  shows "schema_ok (s\<lparr>TriviaPlayers := TriviaPlayers s @ [p]\<rparr>) \<and>
         scores_consistent (s\<lparr>TriviaPlayers := TriviaPlayers s @ [p]\<rparr>) \<and>
         answers_score s (player_id p) = 0"
proof -
  from assms(1) have "\<forall>a\<in>set (TriviaAnswers s). playerId a \<in> player_id ` set (TriviaPlayers s)"
    by (simp add: inv_defs)
  with assms(3) have "filter (\<lambda>a. playerId a = player_id p) (TriviaAnswers s) = []"
    unfolding filter_empty_conv by metis
  then have zero: "answers_score s (player_id p) = 0"
    by (simp add: answers_score_def)
  then have "sum_list (map scoreAwarded (filter (\<lambda>a. playerId a = player_id p) (TriviaAnswers s))) = 0"
    by (simp add: answers_score_def)
  with assms zero show ?thesis
    by (simp add: inv_defs)
qed

lemma score_after_update:
  assumes "distinct (map answer_id t)" "e \<in> set t" "\<forall>x. playerId (f x) = playerId x"
  shows "sum_list (map scoreAwarded (filter (\<lambda>a. playerId a = x)
                    (update_where (\<lambda>a. answer_id a = answer_id e) f t))) =
         sum_list (map scoreAwarded (filter (\<lambda>a. playerId a = x) t)) +
           (if playerId e = x then scoreAwarded (f e) - scoreAwarded e else 0)"
  using assms(1,2)
proof (induction t)
  case Nil
  then show ?case by simp
next
  case (Cons y ys)
  show ?case
  proof (cases "y = e")
    case True
    with Cons.prems have "answer_id e \<notin> answer_id ` set ys" by simp
    then have "update_where (\<lambda>a. answer_id a = answer_id e) f ys = ys"
      by (intro update_where_id) (metis imageI)
    with True assms(3) show ?thesis
      by (simp add: update_where_def)
  next
    case False
    with Cons.prems have e: "e \<in> set ys" and d: "distinct (map answer_id ys)"
      and ne: "answer_id y \<noteq> answer_id e"
      by auto
    from Cons.IH [OF d e] ne show ?thesis
      by (simp add: update_where_def)
  qed
qed

lemma set_update_where:
  "x \<in> set (update_where P f t) \<Longrightarrow> \<exists>y\<in>set t. x = (if P y then f y else y)"
  by (auto simp: update_where_def)

lemma inv_record_update:
  assumes ok: "schema_ok s" and sc: "scores_consistent s"
    and e: "e \<in> set (TriviaAnswers s)" and ep: "playerId e = player_id p"
    and p: "p \<in> set (TriviaPlayers s)"
    and f: "\<forall>x. answer_id (f x) = answer_id x \<and> questionId (f x) = questionId x \<and>
                playerId (f x) = playerId x"
    and n: "n = totalScore p - scoreAwarded e + scoreAwarded (f e)"
    and s': "s' = s\<lparr>TriviaAnswers := update_where (\<lambda>a. answer_id a = answer_id e) f (TriviaAnswers s),
                    TriviaPlayers := update_where (\<lambda>x. player_id x = player_id p)
                                       (\<lambda>x. x\<lparr>totalScore := n\<rparr>) (TriviaPlayers s)\<rparr>"
  shows "schema_ok s' \<and> scores_consistent s'"
proof -
  let ?A = "update_where (\<lambda>a. answer_id a = answer_id e) f (TriviaAnswers s)"
  let ?P = "update_where (\<lambda>x. player_id x = player_id p) (\<lambda>x. x\<lparr>totalScore := n\<rparr>) (TriviaPlayers s)"
  have aid: "map answer_id ?A = map answer_id (TriviaAnswers s)"
    by (rule map_update_where) (simp add: f)
  have pid: "map player_id ?P = map player_id (TriviaPlayers s)"
    by (rule map_update_where) simp
  then have pids: "player_id ` set ?P = player_id ` set (TriviaPlayers s)"
    by (metis set_map)
  have proom: "map player_roomId ?P = map player_roomId (TriviaPlayers s)"
    by (rule map_update_where) simp
  have aq: "map questionId ?A = map questionId (TriviaAnswers s)"
    and ap: "map playerId ?A = map playerId (TriviaAnswers s)"
    by (rule map_update_where, simp add: f)+
  from ok have pk: "primary_keys_ok s'"
    by (simp add: schema_ok_def primary_keys_ok_def s' aid pid)
  have "list_all (\<lambda>p. player_roomId p \<in> set (map room_id (TriviaRooms s))) ?P"
    using ok proom unfolding schema_ok_def references_ok_def list_all_iff
    by (metis (no_types, lifting) image_iff set_map)
  moreover have "list_all (\<lambda>a. questionId a \<in> set (map question_id (TriviaQuestions s)) \<and>
                    playerId a \<in> set (map player_id ?P)) ?A"
    unfolding list_all_iff
  proof
    fix a assume "a \<in> set ?A"
    then obtain y where y: "y \<in> set (TriviaAnswers s)" and a: "a = (if answer_id y = answer_id e then f y else y)"
      by (blast dest: set_update_where)
    from ok y have "questionId y \<in> set (map question_id (TriviaQuestions s)) \<and>
        playerId y \<in> set (map player_id (TriviaPlayers s))"
      by (simp add: schema_ok_def references_ok_def list_all_iff)
    with a f show "questionId a \<in> set (map question_id (TriviaQuestions s)) \<and>
                    playerId a \<in> set (map player_id ?P)"
      by (simp add: pid)
  qed
  ultimately have refs: "references_ok s'"
    using ok by (simp add: schema_ok_def references_ok_def s')
  from ok have dist: "distinct (map answer_id (TriviaAnswers s))"
    by (simp add: schema_ok_def primary_keys_ok_def)
  have score: "answers_score s' x =
      answers_score s x + (if playerId e = x then scoreAwarded (f e) - scoreAwarded e else 0)" for x
    unfolding answers_score_def s'
    using score_after_update [OF dist e, of f x] f by simp
  from sc p have tp: "totalScore p = answers_score s (player_id p)"
    by (simp add: scores_consistent_def list_all_iff)
  have "scores_consistent s'"
    unfolding scores_consistent_def list_all_iff
  proof
    fix x assume "x \<in> set (TriviaPlayers s')"
    then obtain y where y: "y \<in> set (TriviaPlayers s)"
      and x: "x = (if player_id y = player_id p then y\<lparr>totalScore := n\<rparr> else y)"
      unfolding s' by (auto dest: set_update_where)
    from sc y have ty: "totalScore y = answers_score s (player_id y)"
      by (simp add: scores_consistent_def list_all_iff)
    show "totalScore x = answers_score s' (player_id x)"
    proof (cases "player_id y = player_id p")
      case True
      with x n tp ep show ?thesis by (simp add: score)
    next
      case False
      with x ty ep show ?thesis by (simp add: score)
    qed
  qed
  with pk refs show ?thesis by (simp add: schema_ok_def)
qed

lemma find_key_mem:
  assumes "find (\<lambda>r. k r = x) t = Some r"
  shows "x \<in> k ` set t"
proof -
  from find_Some_sat [OF assms] have "k r = x" and "r \<in> set t"
    by simp_all
  from this(2) have "k r \<in> k ` set t"
    by (rule imageI)
  with \<open>k r = x\<close> show ?thesis
    by simp
qed

lemma inv_record_insert:
  assumes ok: "schema_ok s" and sc: "scores_consistent s"
    and fresh: "answer_id row \<notin> answer_id ` set (TriviaAnswers s)"
    and rq: "questionId row \<in> question_id ` set (TriviaQuestions s)"
    and rp: "playerId row = player_id p"
    and p: "p \<in> set (TriviaPlayers s)"
    and n: "n = totalScore p + scoreAwarded row"
    and s': "s' = s\<lparr>TriviaAnswers := TriviaAnswers s @ [row],
                    TriviaPlayers := update_where (\<lambda>x. player_id x = player_id p)
                                       (\<lambda>x. x\<lparr>totalScore := n\<rparr>) (TriviaPlayers s)\<rparr>"
  shows "schema_ok s' \<and> scores_consistent s'"
proof -
  let ?P = "update_where (\<lambda>x. player_id x = player_id p) (\<lambda>x. x\<lparr>totalScore := n\<rparr>) (TriviaPlayers s)"
  have pid: "map player_id ?P = map player_id (TriviaPlayers s)"
    by (rule map_update_where) simp
  have proom: "map player_roomId ?P = map player_roomId (TriviaPlayers s)"
    by (rule map_update_where) simp
  from ok fresh have pk: "primary_keys_ok s'"
    by (simp add: schema_ok_def primary_keys_ok_def s' pid)
  have "list_all (\<lambda>p. player_roomId p \<in> set (map room_id (TriviaRooms s))) ?P"
    using ok proom unfolding schema_ok_def references_ok_def list_all_iff
    by (metis (no_types, lifting) image_iff set_map)
  moreover from p have "player_id p \<in> set (map player_id (TriviaPlayers s))"
    by simp
  ultimately have refs: "references_ok s'"
    using ok rq rp by (simp add: schema_ok_def references_ok_def s' pid)
  have score: "answers_score s' x =
      answers_score s x + (if player_id p = x then scoreAwarded row else 0)" for x
    by (simp add: answers_score_def s' rp)
  from sc p have tp: "totalScore p = answers_score s (player_id p)"
    by (simp add: scores_consistent_def list_all_iff)
  have "scores_consistent s'"
    unfolding scores_consistent_def list_all_iff
  proof
    fix x assume "x \<in> set (TriviaPlayers s')"
    then obtain y where y: "y \<in> set (TriviaPlayers s)"
      and x: "x = (if player_id y = player_id p then y\<lparr>totalScore := n\<rparr> else y)"
      unfolding s' by (auto dest: set_update_where)
    from sc y have ty: "totalScore y = answers_score s (player_id y)"
      by (simp add: scores_consistent_def list_all_iff)
    show "totalScore x = answers_score s' (player_id x)"
    proof (cases "player_id y = player_id p")
      case True
      with x n tp show ?thesis by (simp add: score)
    next
      case False
      with x ty show ?thesis by (simp add: score)
    qed
  qed
  with pk refs show ?thesis by (simp add: schema_ok_def)
qed

lemma recordAnswer_inv:
  assumes ok: "schema_ok s" and sc: "scores_consistent s"
  shows "schema_ok (snd (recordAnswer inp ctx uuid now s)) \<and>
         scores_consistent (snd (recordAnswer inp ctx uuid now s))"
proof (cases rule: recordAnswer_cases [of inp ctx uuid now s])
  case (error e)
  with ok sc show ?thesis by simp
next
  case (update u q p r e)
  note run = recordAnswer_update [OF update(2-8), of uuid now]
  let ?c = "answerIsCorrect (ra_selectedOptionKey inp) (correctOptionKey q)"
  let ?f = "\<lambda>a. a\<lparr>selectedOptionKey := map_option key_text (ra_selectedOptionKey inp),
                  isCorrect := ?c, answeredAt := now, scoreAwarded := (if ?c then 10 else 0)\<rparr>"
  from update(8) have e: "e \<in> set (TriviaAnswers s)"
    unfolding existingAnswer_def by (auto dest: find_Some_sat)
  from update(4) have p: "p \<in> set (TriviaPlayers s)" and pid: "player_id p = ra_playerId inp"
    by (auto dest: find_Some_sat)
  from existingAnswer_pair [OF update(8)] pid have ep: "playerId e = player_id p"
    by simp
  show ?thesis
  proof (rule inv_record_update [OF ok sc e ep p, of ?f])
    show "\<forall>x. answer_id (?f x) = answer_id x \<and> questionId (?f x) = questionId x \<and>
              playerId (?f x) = playerId x"
      by simp
    show "totalScore p - scoreAwarded e + (if ?c then 10 else 0) =
            totalScore p - scoreAwarded e + scoreAwarded (?f e)"
      by simp
    show "snd (recordAnswer inp ctx uuid now s) =
        s\<lparr>TriviaAnswers := update_where (\<lambda>a. answer_id a = answer_id e) ?f (TriviaAnswers s),
          TriviaPlayers := update_where (\<lambda>x. player_id x = player_id p)
            (\<lambda>x. x\<lparr>totalScore := totalScore p - scoreAwarded e + (if ?c then 10 else 0)\<rparr>)
            (TriviaPlayers s)\<rparr>"
      unfolding \<open>ctx = Some u\<close> run by (simp add: Let_def)
  qed
next
  case (insert u q p r)
  note run = recordAnswer_insert [OF insert(2-9), of now]
  let ?c = "answerIsCorrect (ra_selectedOptionKey inp) (correctOptionKey q)"
  let ?row = "\<lparr>answer_id = uuid, questionId = ra_questionId inp, playerId = ra_playerId inp,
               selectedOptionKey = map_option key_text (ra_selectedOptionKey inp),
               isCorrect = ?c, answeredAt = now, scoreAwarded = (if ?c then 10 else 0)\<rparr>"
  from insert(4) have p: "p \<in> set (TriviaPlayers s)" and pid: "player_id p = ra_playerId inp"
    by (auto dest: find_Some_sat)
  from insert(3) have q: "ra_questionId inp \<in> question_id ` set (TriviaQuestions s)"
    by (rule find_key_mem)
  show ?thesis
  proof (rule inv_record_insert [OF ok sc _ _ _ p, of ?row])
    show "answer_id ?row \<notin> answer_id ` set (TriviaAnswers s)"
      using insert(9) by simp
    show "questionId ?row \<in> question_id ` set (TriviaQuestions s)"
      using q by simp
    show "playerId ?row = player_id p"
      using pid by simp
    show "totalScore p + (if ?c then 10 else 0) = totalScore p + scoreAwarded ?row"
      by simp
    show "snd (recordAnswer inp ctx uuid now s) =
        s\<lparr>TriviaAnswers := TriviaAnswers s @ [?row],
          TriviaPlayers := update_where (\<lambda>x. player_id x = player_id p)
            (\<lambda>x. x\<lparr>totalScore := totalScore p + (if ?c then 10 else 0)\<rparr>)
            (TriviaPlayers s)\<rparr>"
      unfolding \<open>ctx = Some u\<close> run by (simp add: Let_def)
  qed
qed

lemma joinRoom_inv:
  assumes ok: "schema_ok s" and sc: "scores_consistent s"
  shows "schema_ok (snd (joinRoom inp ctx uuid now s)) \<and>
         scores_consistent (snd (joinRoom inp ctx uuid now s)) \<and>
         TriviaAnswers (snd (joinRoom inp ctx uuid now s)) = TriviaAnswers s \<and>
         (TriviaPlayers (snd (joinRoom inp ctx uuid now s)) = TriviaPlayers s \<or>
          (\<exists>pl. TriviaPlayers (snd (joinRoom inp ctx uuid now s)) = TriviaPlayers s @ [pl] \<and>
                totalScore pl = 0 \<and> answers_score s (player_id pl) = 0))"
proof (cases rule: joinRoom_cases [of inp ctx uuid now s])
  case (error e)
  with ok sc show ?thesis by simp
next
  case (existing u r e)
  from joinRoom_existing [OF existing(2-4), of uuid now] existing(1) ok sc show ?thesis by simp
next
  case (insert u r)
  let ?new = "newPlayer inp u uuid now"
  from insert(3) have "jr_roomId inp \<in> room_id ` set (TriviaRooms s)"
    by (rule find_key_mem)
  then have "schema_ok (s\<lparr>TriviaPlayers := TriviaPlayers s @ [?new]\<rparr>) \<and>
         scores_consistent (s\<lparr>TriviaPlayers := TriviaPlayers s @ [?new]\<rparr>) \<and>
         answers_score s (player_id ?new) = 0"
    using insert(5) by (intro inv_players_append [OF ok sc]) (simp_all add: newPlayer_def)
  moreover have "totalScore ?new = 0"
    by (simp add: newPlayer_def)
  moreover note joinRoom_insert [OF insert(2-5), of now]
  ultimately show ?thesis
    unfolding insert(1)
    by (intro conjI disjI2 exI [of _ ?new]) simp_all
qed

text \<open>
  C3. On a database that meets the schema's constraints (primary keys, references), every
  action keeps those constraints and keeps each player's totalScore equal to the sum of
  scoreAwarded over the answer rows of that player. Only recordAnswer writes answer rows;
  every other action leaves the players table as it was, except joinRoom, which may append
  one player with totalScore 0 and no answer rows.
\<close>

theorem scores_preserved:
  assumes ok: "schema_ok s" and sc: "scores_consistent s"
  shows "schema_ok (server act ctx uuid now s) \<and>
         scores_consistent (server act ctx uuid now s) \<and>
         ((\<forall>i. act \<noteq> RecordAnswer i) \<longrightarrow>
            TriviaAnswers (server act ctx uuid now s) = TriviaAnswers s \<and>
            (TriviaPlayers (server act ctx uuid now s) = TriviaPlayers s \<or>
             (\<exists>i pl. act = JoinRoom i \<and>
                     TriviaPlayers (server act ctx uuid now s) = TriviaPlayers s @ [pl] \<and>
                     totalScore pl = 0 \<and> answers_score s (player_id pl) = 0)))"
proof (cases act)
  case (CreateRoom inp)
  from createRoom_shape [of inp ctx uuid now s] show ?thesis
  proof
    assume "snd (createRoom inp ctx uuid now s) = s"
    with ok sc CreateRoom show ?thesis by simp
  next
    assume "\<exists>r. room_id r = uuid \<and> uuid \<notin> room_id ` set (TriviaRooms s) \<and>
        snd (createRoom inp ctx uuid now s) = s\<lparr>TriviaRooms := TriviaRooms s @ [r]\<rparr>"
    then obtain r where r: "room_id r \<notin> room_id ` set (TriviaRooms s)"
      and run: "snd (createRoom inp ctx uuid now s) = s\<lparr>TriviaRooms := TriviaRooms s @ [r]\<rparr>"
      by auto
    from inv_rooms_append [OF ok sc r] run CreateRoom show ?thesis by simp
  qed
next
  case (UpdateRoom inp)
  from updateRoom_shape [of inp ctx now s] show ?thesis
  proof
    assume "snd (updateRoom inp ctx now s) = s"
    with ok sc UpdateRoom show ?thesis by simp
  next
    assume "\<exists>g. (\<forall>x. room_id (g x) = room_id x) \<and>
        snd (updateRoom inp ctx now s) = s\<lparr>TriviaRooms := map g (TriviaRooms s)\<rparr>"
    then obtain g where g: "\<forall>x. room_id (g x) = room_id x"
      and run: "snd (updateRoom inp ctx now s) = s\<lparr>TriviaRooms := map g (TriviaRooms s)\<rparr>"
      by auto
    from inv_rooms_map [OF ok sc g] run UpdateRoom show ?thesis by simp
  qed
next
  case (ListMyRooms inp)
  with ok sc show ?thesis by (simp add: listMyRooms_shape)
next
  case (UpsertQuestion inp)
  from upsertQuestion_shape [of inp ctx uuid now s] show ?thesis
  proof (elim disjE)
    assume "snd (upsertQuestion inp ctx uuid now s) = s"
    with ok sc UpsertQuestion show ?thesis by simp
  next
    assume "\<exists>g. (\<forall>x. question_id (g x) = question_id x) \<and>
        (\<forall>x. g x = x \<or> question_roomId (g x) \<in> room_id ` set (TriviaRooms s)) \<and>
        snd (upsertQuestion inp ctx uuid now s) = s\<lparr>TriviaQuestions := map g (TriviaQuestions s)\<rparr>"
    then obtain g where g: "\<forall>x. question_id (g x) = question_id x"
      and ref: "\<forall>x. g x = x \<or> question_roomId (g x) \<in> room_id ` set (TriviaRooms s)"
      and run: "snd (upsertQuestion inp ctx uuid now s) = s\<lparr>TriviaQuestions := map g (TriviaQuestions s)\<rparr>"
      by auto
    from inv_questions_map [OF ok sc g ref] run UpsertQuestion show ?thesis by simp
  next
    assume "\<exists>q. question_id q \<notin> question_id ` set (TriviaQuestions s) \<and>
        question_roomId q \<in> room_id ` set (TriviaRooms s) \<and>
        snd (upsertQuestion inp ctx uuid now s) = s\<lparr>TriviaQuestions := TriviaQuestions s @ [q]\<rparr>"
    then obtain q where q: "question_id q \<notin> question_id ` set (TriviaQuestions s)"
      and ref: "question_roomId q \<in> room_id ` set (TriviaRooms s)"
      and run: "snd (upsertQuestion inp ctx uuid now s) = s\<lparr>TriviaQuestions := TriviaQuestions s @ [q]\<rparr>"
      by auto
    from inv_questions_append [OF ok sc q ref] run UpsertQuestion show ?thesis by simp
  qed
next
  case (ListRoomQuestions inp)
  with ok sc show ?thesis by (simp add: listRoomQuestions_shape)
next
  case (JoinRoom inp)
  from joinRoom_inv [OF ok sc, of inp ctx uuid now] JoinRoom show ?thesis
    by simp
next
  case (RecordAnswer inp)
  from recordAnswer_inv [OF ok sc, of inp ctx uuid now] RecordAnswer show ?thesis
    by simp
qed

theorem scores_preserved_witness:
  "schema_ok empty_db \<and> scores_consistent empty_db \<and>
   schema_ok demo_db \<and> scores_consistent demo_db \<and>
   schema_ok (server (RecordAnswer \<lparr>ra_questionId = ''q2'', ra_playerId = ''p1'',
                ra_selectedOptionKey = Some A\<rparr>) (Some alice) ''a2'' 9 demo_db) \<and>
   scores_consistent (server (RecordAnswer \<lparr>ra_questionId = ''q2'', ra_playerId = ''p1'',
                ra_selectedOptionKey = Some A\<rparr>) (Some alice) ''a2'' 9 demo_db) \<and>
   map totalScore (TriviaPlayers (server (RecordAnswer \<lparr>ra_questionId = ''q2'', ra_playerId = ''p1'',
                ra_selectedOptionKey = Some A\<rparr>) (Some alice) ''a2'' 9 demo_db)) = [20]"
proof -
  let ?act = "RecordAnswer \<lparr>ra_questionId = ''q2'', ra_playerId = ''p1'', ra_selectedOptionKey = Some A\<rparr>"
  have e: "schema_ok empty_db" "scores_consistent empty_db"
    by (simp_all add: empty_db_def schema_ok_def primary_keys_ok_def references_ok_def
        scores_consistent_def)
  have ok: "schema_ok demo_db"
    by (simp add: schema_ok_def primary_keys_ok_def references_ok_def demo_defs)
  have sc: "scores_consistent demo_db"
    by (simp add: scores_consistent_def answers_score_def demo_defs)
  have inv: "schema_ok (server ?act (Some alice) ''a2'' 9 demo_db)"
    "scores_consistent (server ?act (Some alice) ''a2'' 9 demo_db)"
    using scores_preserved [OF ok sc, of ?act "Some alice" "''a2''" 9] by blast+
  have total: "map totalScore (TriviaPlayers (server ?act (Some alice) ''a2'' 9 demo_db)) = [20]"
    by (simp add: recordAnswer_def recordAnswer_handler_def recordAnswer_schema_def requireUser_def
        existingAnswer_def answerIsCorrect_def insert_row_def update_where_def Let_def demo_defs)
  from e ok sc inv total show ?thesis
    by (intro conjI)
qed

end
